theory Spec2Isabelle
  imports Complex_Main
begin

section \<open>DP3: the BDA direction-dependent calibration step and the solver base\<close>

text \<open>
  The development embeds two source files:
  \<^item> \<^verbatim>\<open>src/ddecal/gain_solvers/SolverBase.h\<close>: the calibration setup of the iteration
    engine and its stopping criterion;
  \<^item> \<^verbatim>\<open>src/steps/BdaDdeCal.cc\<close>: the constructor, the channel-block partitioner, the
    handling of the model-buffer queue and the solution-interval driver.

  Conventions. A \<^verbatim>\<open>size_t\<close> is a \<^typ>\<open>nat\<close>; where the source subtracts or multiplies
  two of them the wrap-around modulo \<open>2 ^ 64\<close> is written out. A \<^verbatim>\<open>double\<close> and a
  \<^verbatim>\<open>float\<close> are the \<^typ>\<open>real\<close> numbers they denote, a \<^verbatim>\<open>std::complex\<close> is a
  \<^typ>\<open>complex\<close>, and every arithmetic operation of the source on them is the exact
  operation followed by rounding to the nearest number of the format, ties to even
  (\<open>round_double\<close>, \<open>round_float\<close>); a product and a sum are two operations, not one fused
  operation. Overflow, subnormal numbers, infinities and NaN are outside the model: the
  exponent is not bounded. A C++ exception, a failed \<^verbatim>\<open>assert\<close>
  and an access outside a vector are values of the type \<open>error\<close>; a function that can
  fail returns \<open>error + 'a\<close>.
\<close>

datatype error =
    InvalidArgument string
  | RuntimeError string
  | AssertionFailed string
  | OutOfBounds string

subsection \<open>SolverBase: calibration setup and stopping criterion\<close>

text \<open>
  The calibration setup fields of \<^verbatim>\<open>SolverBase\<close> (SolverBase.h, lines 221-233), each
  named as in the source without its trailing underscore. The constraints are pointers to
  objects of a class that is not part of the sources; their type is the parameter \<open>'c\<close>.
\<close>

record 'c SolverBase =
  min_iterations :: nat
  max_iterations :: nat
  n_threads :: nat
  accuracy :: real
  constraint_accuracy :: real
  step_size :: real
  detect_stalling :: bool
  phase_only :: bool
  constraints :: "'c list"



text \<open>
  The getters of SolverBase.h (lines 99 and 109).
\<close>

definition GetMaxIterations :: "('c, 'z) SolverBase_scheme \<Rightarrow> nat" where
  "GetMaxIterations s = max_iterations s"

definition GetMinIterations :: "('c, 'z) SolverBase_scheme \<Rightarrow> nat" where
  "GetMinIterations s = min_iterations s"

subsection \<open>BdaDdeCal: settings, solver interface, results\<close>

text \<open>
  The members of \<^verbatim>\<open>settings_\<close> that BdaDdeCal.cc reads. \<open>n_channels\<close> and
  \<open>solution_interval\<close> are \<^verbatim>\<open>size_t\<close>; zero means "not set".
\<close>

record Settings =
  directions :: "string list"
  only_predict :: bool
  h5parm_name :: string
  n_channels :: nat
  solution_interval :: nat
  flag_unconverged :: bool
  flag_diverged_only :: bool
  propagate_solutions :: bool
  propagate_converged_only :: bool
  subtract :: bool

text \<open>
  The solver as BdaDdeCal.cc uses it: a \<^verbatim>\<open>SolverBase\<close> with three more member
  functions, \<^verbatim>\<open>ConstraintSolvers()\<close>, \<^verbatim>\<open>GetConstraints()\<close> and
  \<^verbatim>\<open>NSolutionPolarizations()\<close>, which the SolverBase.h of the sources does not declare.
  They are taken as given: \<open>ConstraintSolvers\<close> is the list of solvers that
  \<^verbatim>\<open>ConstraintSolvers()\<close> returns, \<open>NSolutionPolarizations\<close> is the value of the function
  of that name, and \<open>GetConstraints\<close> returns the member \<^verbatim>\<open>constraints_\<close>, as the getters
  that the header does declare return their members.
\<close>

record 'c BdaSolver = "'c SolverBase" +
  ConstraintSolvers :: "'c SolverBase list"
  NSolutionPolarizations :: nat

definition GetConstraints :: "('c, 'z) SolverBase_scheme \<Rightarrow> 'c list" where
  "GetConstraints s = constraints s"

text \<open>
  \<^verbatim>\<open>Constraint::Result\<close> is declared outside the sources; BdaDdeCal.cc touches its
  \<open>weights\<close> only. The other members are the parameter \<open>'r\<close>.
  \<open>SolveResult\<close> is the struct of SolverBase.h, lines 43-47.
\<close>

record 'r Constraint_Result =
  weights :: "real list"
  other_members :: 'r

record 'r SolveResult =
  iterations :: nat
  constraint_iterations :: nat
  results :: "'r Constraint_Result list list"

text \<open>
  What BdaDdeCal.cc reads of \<^verbatim>\<open>info()\<close>: the number of channels, the channel
  frequencies and widths of baseline 0, and the number of used antennas.
\<close>

record DPInfo =
  nchan :: nat
  chanFreqs0 :: "real list"
  chanWidths0 :: "real list"
  n_antennaUsed :: nat

text \<open>
  The calls that \<^verbatim>\<open>ProcessCompleteDirections\<close> makes to its collaborators, in order:
  \<open>NextStepProcess b\<close> is \<^verbatim>\<open>getNextStep()->process(b)\<close>; \<open>AppendAndWeight d ms\<close> is
  the call of that name on the solver buffer; \<open>SolveCompleteIntervals\<close> stands for lines
  263-272, which drive the solver over the complete intervals of the solver buffer (the
  class of the solver buffer is not part of the sources).
  A \<^verbatim>\<open>BDABuffer\<close> is its array of visibilities.
\<close>

datatype event =
    NextStepProcess "complex list"
  | AppendAndWeight "complex list" "complex list list"
  | SolveCompleteIntervals

text \<open>
  The state of a \<^verbatim>\<open>BdaDdeCal\<close>. A member \<^verbatim>\<open>x_\<close> of the class is the field \<open>m_x\<close>.
  A \<^verbatim>\<open>unique_ptr\<close> is an \<open>option\<close>. \<open>m_events\<close> records the calls to the collaborators.
\<close>

record ('c, 'r) BdaDdeCal =
  m_settings :: Settings
  m_info :: DPInfo
  m_solver :: "'c BdaSolver option"
  m_solution_writer :: "string option"
  m_patches :: "string list"
  m_data_buffers :: "complex list list"
  m_model_buffers :: "complex list option list list"
  m_chan_block_start_freqs :: "real list"
  m_solutions :: "complex list list list"
  m_iterations :: "nat list"
  m_approx_iterations :: "nat list"
  m_constraint_solutions :: "'r Constraint_Result list list list"
  m_events :: "event list"

text \<open>\<open>SZ\<close> is the number of values of a \<^verbatim>\<open>size_t\<close>.\<close>

definition SZ :: nat where
  "SZ = 2 ^ 64"

subsection \<open>The iteration engine\<close>

text \<open>
  Modelled from the spec: the outcome of one iteration of \<^verbatim>\<open>Solve\<close> (section 4.3).
  \<^verbatim>\<open>SolverBase::Solve\<close> is pure virtual (SolverBase.h, lines 78-82), and no file of the
  sources defines it for any solver. What one iteration computes (the step algorithm and
  the constraints) is not modelled: a run of the engine is given by the outcome of each
  of its iterations, numbered from 1, namely the two results of the convergence test, the
  magnitude of the step, and what the constraints report. The number of constraint
  iterations, of which the specification says only that the result carries it, is part of
  what the constraints report.
\<close>

record 'r iteration_outcome =
  is_converged :: bool
  constraints_converged :: bool
  step_magnitude :: real
  constraint_iteration_count :: nat
  constraint_results :: "'r Constraint_Result list list"







subsection \<open>Floating-point arithmetic\<close>

text \<open>
  \<open>binade fuel x\<close> is the exponent \<open>e\<close> with \<open>2 ^ e \<le> x < 2 ^ (e + 1)\<close> of a positive
  \<open>x\<close>, found by halving or doubling at most \<open>fuel\<close> times; 2200 steps reach the exponent
  of every \<^verbatim>\<open>double\<close> and of the exact sum, product and quotient of any two of them. \<open>pow2 e\<close> is \<open>2 ^ e\<close> for an integer \<open>e\<close>.
\<close>

fun binade :: "nat \<Rightarrow> real \<Rightarrow> int" where
  "binade fuel x =
     (if fuel = 0 then 0
      else if 2 \<le> x then binade (fuel - 1) (x / 2) + 1
      else if x < 1 then binade (fuel - 1) (2 * x) - 1
      else 0)"

declare binade.simps [simp del]

definition pow2 :: "int \<Rightarrow> real" where
  "pow2 e = (if 0 \<le> e then 2 ^ nat e else 1 / 2 ^ nat (- e))"

text \<open>Rounding to the nearest integer, a tie to the even one.\<close>

definition round_half_even :: "real \<Rightarrow> int" where
  "round_half_even x =
     (let f = \<lfloor>x\<rfloor>
      in if x - of_int f < 1 / 2 then f
         else if 1 / 2 < x - of_int f then f + 1
         else if even f then f else f + 1)"

text \<open>
  Rounding to the nearest binary floating-point number with a significand of \<open>p\<close> bits,
  ties to even: the rounding of every IEEE 754 operation in the default mode, which is
  what the arithmetic of the source does. A \<^verbatim>\<open>double\<close> has 53 bits, a \<^verbatim>\<open>float\<close> 24.
\<close>

definition round_binary :: "nat \<Rightarrow> real \<Rightarrow> real" where
  "round_binary p x =
     (if x = 0 then 0
      else
        let ulp = pow2 (binade 2200 \<bar>x\<bar> - (int p - 1))
        in sgn x * (of_int (round_half_even (\<bar>x\<bar> / ulp)) * ulp))"

definition round_double :: "real \<Rightarrow> real" where
  "round_double x = round_binary 53 x"



subsection \<open>BdaDdeCal: the constructor\<close>

text \<open>
  The constructor (lines 30-67). \<open>CreateBdaSolver\<close> is the factory function of that name,
  which is not part of the sources. \<^verbatim>\<open>InitializePredictSteps\<close> builds one predict step
  and one patch per direction; of these the model keeps the patches.
\<close>

definition BdaDdeCal_ctor ::
  "Settings \<Rightarrow> (Settings \<Rightarrow> 'c BdaSolver) \<Rightarrow> error + ('c, 'r) BdaDdeCal"
where
  "BdaDdeCal_ctor settings CreateBdaSolver =
     (let st = \<lparr>m_settings = settings,
                m_info = \<lparr>nchan = 0, chanFreqs0 = [], chanWidths0 = [], n_antennaUsed = 0\<rparr>,
                m_solver = None, m_solution_writer = None, m_patches = [],
                m_data_buffers = [], m_model_buffers = [], m_chan_block_start_freqs = [],
                m_solutions = [], m_iterations = [], m_approx_iterations = [],
                m_constraint_solutions = [], m_events = []\<rparr>
      in if directions settings = []
         then Inl (InvalidArgument ''Invalid info in input parset: direction(s) must be specified'')
         else
           let st1 = st\<lparr>m_patches := directions settings\<rparr>
           in if \<not> only_predict settings
              then
                let solver = CreateBdaSolver settings
                in if list_ex (\<lambda>constraint_solver. GetConstraints constraint_solver \<noteq> [])
                        (ConstraintSolvers solver)
                   then Inl (RuntimeError ''BDA Solver constraints are not implemented in BdaDdeCal. Use a solver without constraints (scalar or diagonal).'')
                   else Inr (st1\<lparr>m_solver := Some solver,
                                 m_solution_writer := Some (h5parm_name settings)\<rparr>)
              else Inr st1)"

subsection \<open>BdaDdeCal: the channel-block partitioner\<close>

text \<open>
  The loop of \<^verbatim>\<open>DetermineChannelBlocks\<close> (lines 169-177), with its loop variables
  \<open>ch_block\<close>, \<open>start_index\<close> and \<open>start_freq\<close>, and the vector \<open>freqs\<close> that it extends.
  The product and the difference of the indices are \<^verbatim>\<open>size_t\<close> operations. In line 173
  the block size is converted to \<^verbatim>\<open>double\<close>, multiplied by the channel width and added
  to the start frequency; each of the three steps rounds.
\<close>

function channel_block_loop ::
  "nat \<Rightarrow> nat \<Rightarrow> real \<Rightarrow> nat \<Rightarrow> nat \<Rightarrow> real \<Rightarrow> real list \<Rightarrow> real list"
where
  "channel_block_loop n_chan n_channel_blocks chan_width ch_block start_index start_freq freqs =
     (if ch_block < n_channel_blocks
      then
        let next_index = ((ch_block + 1) * n_chan mod SZ) div n_channel_blocks;
            block_size = (next_index + SZ - start_index) mod SZ;
            next_freq =
              round_double
                (start_freq + round_double (round_double (real block_size) * chan_width))
        in channel_block_loop n_chan n_channel_blocks chan_width (ch_block + 1) next_index
             next_freq (freqs @ [next_freq])
      else freqs)"
  by pat_completeness auto
termination
  by (relation "measure (\<lambda>(n_chan, n_channel_blocks, chan_width, ch_block, start_index,
        start_freq, freqs). n_channel_blocks - ch_block)") auto

declare channel_block_loop.simps [simp del]

text \<open>The number of channel blocks (lines 149-153).\<close>

definition n_channel_blocks_of :: "nat \<Rightarrow> nat \<Rightarrow> nat" where
  "n_channel_blocks_of n_chan n_chans_per_block =
     (if n_chans_per_block > 0 then max (n_chan div n_chans_per_block) 1 else 1)"

text \<open>
  The two ends of the band (lines 157-160) and the channel width (line 161), as the
  source computes them in \<^verbatim>\<open>double\<close>. The number of channels is converted to
  \<^verbatim>\<open>double\<close> for the division. With no channel at all the source divides by zero, which
  is outside the model.
\<close>

definition min_freq :: "DPInfo \<Rightarrow> real" where
  "min_freq info = round_double (hd (chanFreqs0 info) - round_double (hd (chanWidths0 info) / 2))"

definition max_freq :: "DPInfo \<Rightarrow> real" where
  "max_freq info =
     round_double (last (chanFreqs0 info) + round_double (last (chanWidths0 info) / 2))"

definition chan_width_of :: "DPInfo \<Rightarrow> real" where
  "chan_width_of info =
     round_double (round_double (max_freq info - min_freq info) /
                   round_double (real (nchan info)))"

text \<open>
  \<^verbatim>\<open>DetermineChannelBlocks\<close> (lines 146-178). \<^verbatim>\<open>front()\<close> and \<^verbatim>\<open>back()\<close> of an empty
  vector are undefined in C++: an error here.
\<close>

definition DetermineChannelBlocks :: "('c, 'r) BdaDdeCal \<Rightarrow> error + ('c, 'r) BdaDdeCal" where
  "DetermineChannelBlocks st =
     (let info = m_info st;
          n_channel_blocks = n_channel_blocks_of (nchan info) (n_channels (m_settings st))
      in if chanFreqs0 info = [] \<or> chanWidths0 info = []
         then Inl (OutOfBounds ''front() of an empty vector'')
         else
           Inr (st\<lparr>m_chan_block_start_freqs :=
                    channel_block_loop (nchan info) n_channel_blocks (chan_width_of info) 0 0
                      (min_freq info) [min_freq info]\<rparr>))"

text \<open>
  The inputs on which \<^verbatim>\<open>DetermineChannelBlocks\<close> computes exactly: no product of indices
  wraps around, and none of its floating-point operations has to round. \<open>width\<close> is the
  mean channel width, block \<open>k\<close> ends after the first \<open>(k + 1) * n div nb\<close> channels.
\<close>

definition exact_run :: "DPInfo \<Rightarrow> nat \<Rightarrow> bool" where
  "exact_run info n_chans_per_block =
     (let n = nchan info;
          nb = n_channel_blocks_of n n_chans_per_block;
          width = (max_freq info - min_freq info) / real n
      in nb * n < SZ \<and>
         round_double (max_freq info - min_freq info) = max_freq info - min_freq info \<and>
         round_double (real n) = real n \<and>
         round_double width = width \<and>
         list_all
           (\<lambda>k. let block_size = (k + 1) * n div nb - k * n div nb
                in round_double (real block_size) = real block_size \<and>
                   round_double (real block_size * width) = real block_size * width \<and>
                   round_double (min_freq info + real ((k + 1) * n div nb) * width) =
                     min_freq info + real ((k + 1) * n div nb) * width)
           [0 ..< nb])"

text \<open>
  Following the words of the specification, not the code: the boundaries that the
  cumulative channel widths give, where block \<open>b\<close> ends after the first
  \<open>(b + 1) * n_chan div n_blocks\<close> channels.
\<close>

definition spec_cumulative_width_boundaries :: "nat \<Rightarrow> nat \<Rightarrow> real \<Rightarrow> real list \<Rightarrow> real list" where
  "spec_cumulative_width_boundaries n_chan n_blocks first_freq widths =
     map (\<lambda>b. first_freq + sum_list (take (b * n_chan div n_blocks) widths)) [0 ..< n_blocks + 1]"

subsection \<open>BdaDdeCal: the queue of model buffers\<close>







subsection \<open>BdaDdeCal: the solution-interval driver\<close>

text \<open>
  The loop of lines 386-391 over one block: the unity matrix for every four entries. An
  index beyond the end of the block is an error.
\<close>

fun unity_block :: "complex list \<Rightarrow> error + complex list" where
  "unity_block [] = Inr []"
| "unity_block (a # b # c # d # rest) =
     (case unity_block rest of
        Inl e \<Rightarrow> Inl e
      | Inr rest' \<Rightarrow> Inr (1 # 0 # 0 # 1 # rest'))"
| "unity_block _ = Inl (OutOfBounds ''current_block[i + k]'')"

text \<open>A loop over blocks that stops at the first error.\<close>

fun for_each_block :: "('a \<Rightarrow> error + 'b) \<Rightarrow> 'a list \<Rightarrow> error + 'b list" where
  "for_each_block f [] = Inr []"
| "for_each_block f (x # xs) =
     (case f x of
        Inl e \<Rightarrow> Inl e
      | Inr y \<Rightarrow> (case for_each_block f xs of Inl e \<Rightarrow> Inl e | Inr ys \<Rightarrow> Inr (y # ys)))"

text \<open>
  The loop of lines 377-382: \<^verbatim>\<open>std::copy\<close> writes the previous block over the start of the
  current block; the \<^verbatim>\<open>assert\<close> of line 380 is an error when it fails.
\<close>

fun copy_blocks :: "complex list list \<Rightarrow> complex list list \<Rightarrow> error + complex list list" where
  "copy_blocks [] prev_solution = Inr []"
| "copy_blocks (current_block # cs) [] = Inl (OutOfBounds ''prev_solution[block]'')"
| "copy_blocks (current_block # cs) (prev_block # ps) =
     (if length current_block \<noteq> length prev_block
      then Inl (AssertionFailed ''current_block.size() == prev_block.size()'')
      else (case copy_blocks cs ps of
              Inl e \<Rightarrow> Inl e
            | Inr rest \<Rightarrow> Inr ((prev_block @ drop (length prev_block) current_block) # rest)))"

text \<open>
  \<^verbatim>\<open>InitializeCurrentSolutions\<close> (lines 360-399). \<^verbatim>\<open>back()\<close> of an empty vector, an
  index outside \<^verbatim>\<open>iterations_\<close> and the use of a null solver are errors.
\<close>

definition InitializeCurrentSolutions :: "('c, 'r) BdaDdeCal \<Rightarrow> error + ('c, 'r) BdaDdeCal" where
  "InitializeCurrentSolutions st =
     (if m_solutions st = [] then Inl (OutOfBounds ''back() of an empty vector'')
      else
        let current_solution = last (m_solutions st);
            n = length (m_solutions st);
            propagate0 = (n > 1 \<and> propagate_solutions (m_settings st))
        in if propagate0 \<and> propagate_converged_only (m_settings st) \<and>
              \<not> n - 2 < length (m_iterations st)
           then Inl (OutOfBounds ''iterations_[solutions_.size() - 2]'')
           else if propagate0 \<and> propagate_converged_only (m_settings st) \<and> m_solver st = None
           then Inl (OutOfBounds ''solver_ is null'')
           else
             let propagate =
                   (if propagate0 \<and> propagate_converged_only (m_settings st) \<and>
                       m_iterations st ! (n - 2) > GetMaxIterations (the (m_solver st))
                    then False else propagate0)
             in if propagate
                then
                  let prev_solution = m_solutions st ! (n - 2)
                  in if length current_solution \<noteq> length prev_solution
                     then Inl (AssertionFailed ''current_solution.size() == prev_solution.size()'')
                     else (case copy_blocks current_solution prev_solution of
                             Inl e \<Rightarrow> Inl e
                           | Inr new_solution \<Rightarrow>
                               Inr (st\<lparr>m_solutions := butlast (m_solutions st) @ [new_solution]\<rparr>))
                else if m_solver st = None
                then Inl (OutOfBounds ''solver_ is null'')
                else if NSolutionPolarizations (the (m_solver st)) = 4
                then (case for_each_block unity_block current_solution of
                        Inl e \<Rightarrow> Inl e
                      | Inr new_solution \<Rightarrow>
                          Inr (st\<lparr>m_solutions := butlast (m_solutions st) @ [new_solution]\<rparr>))
                else Inr (st\<lparr>m_solutions := butlast (m_solutions st) @
                               [map (\<lambda>block_solution. replicate (length block_solution) 1)
                                  current_solution]\<rparr>))"

text \<open>
  The treatment of the weights in \<^verbatim>\<open>SolveCurrentInterval\<close> (lines 312-346), for the
  settings, the value of \<^verbatim>\<open>solver_->GetMaxIterations()\<close> and the result of the solver.
\<close>

definition map_weights :: "(real \<Rightarrow> real) \<Rightarrow> 'r SolveResult \<Rightarrow> 'r SolveResult" where
  "map_weights f result =
     result\<lparr>results :=
       map (\<lambda>constraint_results.
              map (\<lambda>constraint_result.
                     constraint_result\<lparr>weights := map f (weights constraint_result)\<rparr>)
                constraint_results)
         (results result)\<rparr>"

definition flag_unconverged_weights :: "Settings \<Rightarrow> nat \<Rightarrow> 'r SolveResult \<Rightarrow> 'r SolveResult" where
  "flag_unconverged_weights settings max_iter result =
     (if flag_unconverged settings \<and> iterations result > max_iter
      then
        if flag_diverged_only settings
        then map_weights (\<lambda>weight. max weight 0) result
        else map_weights (\<lambda>weight. 0) result
      else map_weights (\<lambda>weight. if weight < 0 then 1 else weight) result)"

text \<open>
  Lines 276-293 of \<^verbatim>\<open>SolveCurrentInterval\<close>: a new entry of \<^verbatim>\<open>solutions_\<close> with
  \<open>n_channel_blocks\<close> blocks of \<open>block_solution_size\<close> entries 1.0. The number of blocks
  is \<^verbatim>\<open>chan_block_start_freqs_.size() - 1\<close> in \<^verbatim>\<open>size_t\<close>. (The product of the three
  sizes is taken in \<open>nat\<close>: a vector of \<open>2 ^ 64\<close> entries cannot be allocated.)
\<close>

definition n_channel_blocks :: "('c, 'r) BdaDdeCal \<Rightarrow> nat" where
  "n_channel_blocks st = (length (m_chan_block_start_freqs st) + SZ - 1) mod SZ"

definition block_solution_size :: "('c, 'r) BdaDdeCal \<Rightarrow> 'c BdaSolver \<Rightarrow> nat" where
  "block_solution_size st solver =
     length (directions (m_settings st)) * n_antennaUsed (m_info st) *
     NSolutionPolarizations solver"

definition emplace_solutions :: "('c, 'r) BdaDdeCal \<Rightarrow> 'c BdaSolver \<Rightarrow> ('c, 'r) BdaDdeCal" where
  "emplace_solutions st solver =
     st\<lparr>m_solutions := m_solutions st @
          [replicate (n_channel_blocks st) (replicate (block_solution_size st solver) 1)]\<rparr>"

text \<open>
  Following the words of the specification, not the code: the neutral solution of an
  interval with \<open>n_blocks\<close> channel blocks and \<open>n_pairs\<close> pairs of an antenna and a
  direction is the 2x2 identity matrix per pair for the parameterization with four
  polarizations, and 1.0 per entry otherwise.
\<close>

definition spec_neutral_solution :: "nat \<Rightarrow> nat \<Rightarrow> nat \<Rightarrow> complex list list" where
  "spec_neutral_solution n_blocks n_pairs n_pol =
     replicate n_blocks
       (if n_pol = 4 then concat (replicate n_pairs [1, 0, 0, 1])
        else replicate (n_pairs * n_pol) 1)"

text \<open>
  \<^verbatim>\<open>SolveCurrentInterval\<close> (lines 275-358). \<open>Solve\<close> is what \<^verbatim>\<open>solver_->Solve\<close> does with
  the data of the interval: it takes the initial solutions and returns the final solutions
  and the result. \<open>buffer_interval\<close> is the value of
  \<^verbatim>\<open>solver_buffer_->GetCurrentInterval()\<close>; the conversion of \<^verbatim>\<open>solutions_.size()\<close> to
  \<^verbatim>\<open>int\<close> is taken to be exact. The four \<^verbatim>\<open>assert\<close>s are errors when they fail. The
  subtraction of the corrected model (lines 305-310) changes the solver buffer only, which
  this state does not hold.
\<close>

definition SolveCurrentInterval ::
  "(complex list list \<Rightarrow> complex list list \<times> 'r SolveResult) \<Rightarrow> nat \<Rightarrow>
     ('c, 'r) BdaDdeCal \<Rightarrow> error + ('c, 'r) BdaDdeCal"
where
  "SolveCurrentInterval Solve buffer_interval st =
     (if length (m_solutions st) \<noteq> buffer_interval
      then Inl (AssertionFailed ''current_interval == solver_buffer_->GetCurrentInterval()'')
      else
        case m_solver st of
          None \<Rightarrow> Inl (OutOfBounds ''solver_ is null'')
        | Some solver \<Rightarrow>
            (case InitializeCurrentSolutions (emplace_solutions st solver) of
               Inl e \<Rightarrow> Inl e
             | Inr st1 \<Rightarrow>
                 let (final_solution, result) = Solve (last (m_solutions st1));
                     st2 = st1\<lparr>m_solutions := butlast (m_solutions st1) @ [final_solution]\<rparr>
                 in if length (m_iterations st2) \<noteq> (length (m_solutions st2) + SZ - 1) mod SZ
                    then Inl (AssertionFailed ''iterations_.size() == solutions_.size() - 1'')
                    else if length (m_approx_iterations st2) \<noteq>
                            (length (m_solutions st2) + SZ - 1) mod SZ
                    then Inl (AssertionFailed ''approx_iterations_.size() == solutions_.size() - 1'')
                    else
                      let st3 = st2\<lparr>m_iterations := m_iterations st2 @ [iterations result],
                                    m_approx_iterations :=
                                      m_approx_iterations st2 @ [constraint_iterations result]\<rparr>;
                          result' = flag_unconverged_weights (m_settings st3)
                                      (GetMaxIterations solver) result;
                          st4 = (if list_ex (\<lambda>constraint_results. constraint_results \<noteq> [])
                                      (results result')
                                 then st3\<lparr>m_constraint_solutions :=
                                            m_constraint_solutions st3 @ [results result']\<rparr>
                                 else st3\<lparr>m_constraint_solutions :=
                                            m_constraint_solutions st3 @ [[]]\<rparr>)
                      in if length (m_solutions st4) \<noteq> length (m_constraint_solutions st4)
                         then Inl (AssertionFailed ''solutions_.size() == constraint_solutions_.size()'')
                         else Inr st4))"

text \<open>
  The loops \<^verbatim>\<open>{ SolveCurrentInterval(); solver_buffer_->AdvanceInterval(); }\<close> of lines
  264-267 and 411-414: one entry of the list for every interval that is solved, with what
  the solver does on its data and the interval number that the solver buffer reports.
\<close>

fun SolveIntervals ::
  "((complex list list \<Rightarrow> complex list list \<times> 'r SolveResult) \<times> nat) list \<Rightarrow>
     ('c, 'r) BdaDdeCal \<Rightarrow> error + ('c, 'r) BdaDdeCal"
where
  "SolveIntervals [] st = Inr st"
| "SolveIntervals ((Solve, buffer_interval) # rest) st =
     (case SolveCurrentInterval Solve buffer_interval st of
        Inl e \<Rightarrow> Inl e
      | Inr st' \<Rightarrow> SolveIntervals rest st')"

subsection \<open>Concrete inputs\<close>

text \<open>
  Settings with one or more directions and the four policy switches, a solver without
  constraints, and a result of the solver with two weights, used where the theorems are
  instantiated.
\<close>

definition example_settings :: "bool \<Rightarrow> bool \<Rightarrow> bool \<Rightarrow> bool \<Rightarrow> Settings" where
  "example_settings flag_unc div_only propagate conv_only =
     \<lparr>directions = [''d0''], only_predict = False, h5parm_name = ''sol.h5'',
      n_channels = 0, solution_interval = 0, flag_unconverged = flag_unc,
      flag_diverged_only = div_only, propagate_solutions = propagate,
      propagate_converged_only = conv_only, subtract = False\<rparr>"

text \<open>
  Four contiguous channels \<open>[0, 1]\<close>, \<open>[1, 2]\<close>, \<open>[2, 4]\<close> and \<open>[4, 6]\<close> of unequal
  width, given by their centres and widths, and three antennas.
\<close>

definition example_info :: DPInfo where
  "example_info =
     \<lparr>nchan = 4, chanFreqs0 = [1 / 2, 3 / 2, 3, 5], chanWidths0 = [1, 1, 2, 2],
      n_antennaUsed = 3\<rparr>"

definition example_solver :: "nat \<Rightarrow> nat \<Rightarrow> unit BdaSolver" where
  "example_solver max_iter n_pol =
     \<lparr>min_iterations = 0, max_iterations = max_iter, n_threads = 1, accuracy = 1 / 10000,
      constraint_accuracy = 1 / 1000, step_size = 1 / 5, detect_stalling = True,
      phase_only = False, constraints = [],
      ConstraintSolvers = [\<lparr>min_iterations = 0, max_iterations = max_iter, n_threads = 1,
         accuracy = 1 / 10000, constraint_accuracy = 1 / 1000, step_size = 1 / 5,
         detect_stalling = True, phase_only = False, constraints = []\<rparr>],
      NSolutionPolarizations = n_pol\<rparr>"

definition example_state :: "Settings \<Rightarrow> DPInfo \<Rightarrow> unit BdaSolver \<Rightarrow> (unit, unit) BdaDdeCal" where
  "example_state settings info solver =
     \<lparr>m_settings = settings, m_info = info, m_solver = Some solver,
      m_solution_writer = Some (h5parm_name settings), m_patches = directions settings,
      m_data_buffers = [], m_model_buffers = [], m_chan_block_start_freqs = [],
      m_solutions = [], m_iterations = [], m_approx_iterations = [],
      m_constraint_solutions = [], m_events = []\<rparr>"

text \<open>
  The state after one solved interval on two channel blocks, whose final solution is 7
  in every entry and whose iteration count is \<open>prev_iterations\<close>; the solver allows 5
  iterations.
\<close>

definition example_solved_state :: "Settings \<Rightarrow> nat \<Rightarrow> nat \<Rightarrow> (unit, unit) BdaDdeCal" where
  "example_solved_state settings n_pol prev_iterations =
     (example_state settings example_info (example_solver 5 n_pol))
       \<lparr>m_chan_block_start_freqs := [0, 3, 6],
        m_solutions := [replicate 2 (replicate (3 * n_pol) 7)],
        m_iterations := [prev_iterations],
        m_approx_iterations := [0],
        m_constraint_solutions := [[]]\<rparr>"


text \<open>A solver whose only constraint solver carries one constraint.\<close>

definition example_constrained_solver :: "unit BdaSolver" where
  "example_constrained_solver =
     (example_solver 5 2)
       \<lparr>ConstraintSolvers := [\<lparr>min_iterations = 0, max_iterations = 5, n_threads = 1,
          accuracy = 1 / 10000, constraint_accuracy = 1 / 1000, step_size = 1 / 5,
          detect_stalling = True, phase_only = False, constraints = [()]\<rparr>]\<rparr>"

definition example_result :: "nat \<Rightarrow> unit SolveResult" where
  "example_result n_iterations =
     \<lparr>iterations = n_iterations, constraint_iterations = 0,
      results = [[\<lparr>weights = [-1, 2], other_members = ()\<rparr>]]\<rparr>"

text \<open>
  Channel configurations for the partitioner: three contiguous channels \<open>[1, 2]\<close>,
  \<open>[2, 3]\<close> and \<open>[3, 5]\<close>; four channels of width 2 listed from the highest frequency
  down; four channels of width 64 at \<open>2 ^ 60\<close>, where neighbouring \<^verbatim>\<open>double\<close>s are 256
  apart, so that the centres \<open>2 ^ 60 + 32\<close>, \<open>+ 96\<close>, \<open>+ 160\<close> and \<open>+ 224\<close> are stored as
  \<open>2 ^ 60\<close> and \<open>2 ^ 60 + 256\<close>; and a band \<open>[0, 1]\<close> said to hold \<open>2 ^ 63\<close> channels.
  \<open>example_blocks_state info n\<close> is a step with this configuration and \<open>n\<close> channels per
  block.
\<close>

definition example_info_unequal :: DPInfo where
  "example_info_unequal =
     \<lparr>nchan = 3, chanFreqs0 = [3 / 2, 5 / 2, 4], chanWidths0 = [1, 1, 2], n_antennaUsed = 3\<rparr>"

definition example_info_descending :: DPInfo where
  "example_info_descending =
     \<lparr>nchan = 4, chanFreqs0 = [10, 8, 6, 4], chanWidths0 = [2, 2, 2, 2], n_antennaUsed = 3\<rparr>"

definition example_info_narrow :: DPInfo where
  "example_info_narrow =
     \<lparr>nchan = 4, chanFreqs0 = [2 ^ 60, 2 ^ 60, 2 ^ 60 + 256, 2 ^ 60 + 256],
      chanWidths0 = [64, 64, 64, 64], n_antennaUsed = 3\<rparr>"

definition example_info_huge :: DPInfo where
  "example_info_huge =
     \<lparr>nchan = 2 ^ 63, chanFreqs0 = [1 / 2], chanWidths0 = [1], n_antennaUsed = 3\<rparr>"

definition example_blocks_state :: "DPInfo \<Rightarrow> nat \<Rightarrow> (unit, unit) BdaDdeCal" where
  "example_blocks_state info n =
     example_state ((example_settings False False False False)\<lparr>n_channels := n\<rparr>) info
       (example_solver 50 2)"



section \<open>Theorems\<close>

subsection \<open>C1: the stopping criterion\<close>



subsection \<open>C2: the treatment of the weights of an interval\<close>

text \<open>
  Claim C2. For every result of the solver on a solution interval, the treatment of the
  weights keeps the iteration counts, the shape of the results and the other members of
  every constraint result, and changes every weight \<open>w\<close> as follows. If "flag unconverged"
  is enabled and the iteration count exceeds the maximum: with "diverged only" set, a
  negative weight becomes zero and every other weight is unchanged; with "diverged only"
  unset every weight becomes zero. Otherwise (flagging disabled, or the count does not
  exceed the maximum) a negative weight becomes 1 and every other weight is unchanged.
\<close>

theorem flag_unconverged_weights_policy:
  fixes result :: "'r SolveResult"
  shows
  "iterations (flag_unconverged_weights settings max_iter result) = iterations result \<and>
   constraint_iterations (flag_unconverged_weights settings max_iter result) =
     constraint_iterations result \<and>
   length (results (flag_unconverged_weights settings max_iter result)) = length (results result) \<and>
   (\<forall>i < length (results result).
      length (results (flag_unconverged_weights settings max_iter result) ! i) =
        length (results result ! i) \<and>
      (\<forall>j < length (results result ! i).
         other_members (results (flag_unconverged_weights settings max_iter result) ! i ! j) =
           other_members (results result ! i ! j) \<and>
         length (weights (results (flag_unconverged_weights settings max_iter result) ! i ! j)) =
           length (weights (results result ! i ! j)) \<and>
         (\<forall>k < length (weights (results result ! i ! j)).
            weights (results (flag_unconverged_weights settings max_iter result) ! i ! j) ! k =
              (let w = weights (results result ! i ! j) ! k
               in if flag_unconverged settings \<and> iterations result > max_iter
                  then if flag_diverged_only settings
                       then (if w < 0 then 0 else w)
                       else 0
                  else (if w < 0 then 1 else w)))))"
  by (auto simp add: flag_unconverged_weights_def map_weights_def Let_def max_def)

theorem flag_unconverged_weights_policy_witness:
  "map weights (results (flag_unconverged_weights (example_settings True True False False) 5
      (example_result 6)) ! 0) = [[0, 2]] \<and>
   map weights (results (flag_unconverged_weights (example_settings True False False False) 5
      (example_result 6)) ! 0) = [[0, 0]] \<and>
   map weights (results (flag_unconverged_weights (example_settings True False False False) 5
      (example_result 5)) ! 0) = [[1, 2]] \<and>
   map weights (results (flag_unconverged_weights (example_settings False False False False) 5
      (example_result 6)) ! 0) = [[1, 2]]"
  using
    flag_unconverged_weights_policy [of "example_settings True True False False" 5 "example_result 6"]
    flag_unconverged_weights_policy [of "example_settings True False False False" 5 "example_result 6"]
    flag_unconverged_weights_policy [of "example_settings True False False False" 5 "example_result 5"]
    flag_unconverged_weights_policy [of "example_settings False False False False" 5 "example_result 6"]
  by (simp add: example_settings_def example_result_def flag_unconverged_weights_def
      map_weights_def)

subsection \<open>Floating-point arithmetic: the exponent and some values\<close>

text \<open>
  With enough fuel \<open>binade\<close> finds the exponent: \<open>x\<close> lies between \<open>2 ^ binade fuel x\<close>
  and the next power of two.
\<close>

lemma pow2_add1: "pow2 (e + 1) = 2 * pow2 e"
proof -
  consider "0 \<le> e" | "e = - 1" | "e < - 1" by linarith
  then show ?thesis
  proof cases
    case 1
    then have "nat (e + 1) = Suc (nat e)" by simp
    with 1 show ?thesis by (simp add: pow2_def)
  next
    case 2
    then show ?thesis by (simp add: pow2_def)
  next
    case 3
    then have "nat (- e) = Suc (nat (- e - 1))" by simp
    with 3 show ?thesis by (simp add: pow2_def)
  qed
qed

lemma pow2_add2: "pow2 (2 + e) = 4 * pow2 e"
  using pow2_add1[of "e + 1"] pow2_add1[of e] by (simp add: add.commute)

lemma pow2_sub1: "pow2 (e - 1) = pow2 e / 2"
  using pow2_add1[of "e - 1"] by simp

lemma binade_correct:
  assumes "pow2 (- int fuel) \<le> x" "x < pow2 (int fuel + 1)"
  shows "pow2 (binade fuel x) \<le> x \<and> x < pow2 (binade fuel x + 1)"
  using assms
proof (induction fuel arbitrary: x)
  case 0
  then show ?case by (simp add: binade.simps pow2_def)
next
  case (Suc fuel)
  have one: "pow2 (- int fuel) \<le> 1"
    by (cases fuel) (simp_all add: pow2_def)
  have "nat (int fuel + 1) = Suc fuel" by simp
  then have two: "2 \<le> pow2 (int fuel + 1)"
    by (simp add: pow2_def)
  show ?case
  proof (cases "2 \<le> x")
    case True
    have "pow2 (- int fuel) \<le> x / 2" using one True by simp
    moreover have "x / 2 < pow2 (int fuel + 1)"
      using Suc.prems(2) pow2_add1[of "int fuel + 1"] by (simp add: add.commute)
    ultimately have "pow2 (binade fuel (x / 2)) \<le> x / 2 \<and> x / 2 < pow2 (binade fuel (x / 2) + 1)"
      by (rule Suc.IH)
    then show ?thesis
      using True by (simp add: binade.simps[of "Suc fuel"] pow2_add1 pow2_add2)
  next
    case False
    show ?thesis
    proof (cases "x < 1")
      case True
      have "pow2 (- int fuel) \<le> 2 * x"
        using Suc.prems(1) pow2_add1[of "- int (Suc fuel)"] by simp
      moreover have "2 * x < pow2 (int fuel + 1)" using two True by simp
      ultimately have IH: "pow2 (binade fuel (2 * x)) \<le> 2 * x \<and> 2 * x < pow2 (binade fuel (2 * x) + 1)"
        by (rule Suc.IH)
      then show ?thesis
        using True False by (simp add: binade.simps[of "Suc fuel"] pow2_add1 pow2_sub1)
    next
      case ge: False
      with False show ?thesis by (simp add: binade.simps[of "Suc fuel"] pow2_def)
    qed
  qed
qed

text \<open>
  The roundings that the concrete inputs below need, by evaluation of \<open>round_binary\<close>.
  Among them: the mean width \<open>4 / 3\<close> of three channels over \<open>[1, 5]\<close> is not a
  \<^verbatim>\<open>double\<close>, and near \<open>2 ^ 60\<close> the \<^verbatim>\<open>double\<close>s are 128 and 256 apart.
\<close>

lemmas float_eval = round_double_def round_binary_def binade.simps pow2_def
  round_half_even_def Let_def

lemma round_double_values:
  "round_double 0 = 0"
  "round_double (1 / 9223372036854775808) = 1 / 9223372036854775808"
  "round_double (1 / 2) = 1 / 2"
  "round_double (- 1) = - 1"
  "round_double 1 = 1"
  "round_double (6004799503160661 / 4503599627370496) = 6004799503160661 / 4503599627370496"
  "round_double (4 / 3) = 6004799503160661 / 4503599627370496"
  "round_double (3 / 2) = 3 / 2"
  "round_double 2 = 2"
  "round_double (10508399130531157 / 4503599627370496) = 2627099782632789 / 1125899906842624"
  "round_double 3 = 3"
  "round_double (16513198633691817 / 4503599627370496) = 2064149829211477 / 562949953421312"
  "round_double (- 4) = - 4"
  "round_double 4 = 4"
  "round_double (22517998136852477 / 4503599627370496) = 5629499534213119 / 1125899906842624"
  "round_double 5 = 5"
  "round_double 6 = 6"
  "round_double 7 = 7"
  "round_double 8 = 8"
  "round_double 9 = 9"
  "round_double 32 = 32"
  "round_double 64 = 64"
  "round_double 256 = 256"
  "round_double 1152921504606846944 = 1152921504606846976"
  "round_double 1152921504606847040 = 1152921504606846976"
  "round_double 1152921504606847264 = 1152921504606847232"
  "round_double 4611686018427387904 = 4611686018427387904"
  "round_double 9223372036854775808 = 9223372036854775808"
  "round_double 13835058055282163712 = 13835058055282163712"
  by (simp_all add: float_eval)


subsection \<open>The channel-block partitioner: the loop in closed form\<close>

text \<open>
  The loop appends one boundary per channel block and leaves the boundaries that it has
  alone. When no product of indices wraps around and no floating-point operation rounds
  (\<open>exact_run\<close>), boundary \<open>j\<close> is the lower end of the band plus \<open>j * n_chan div n_blocks\<close>
  times the mean channel width.
\<close>

lemma length_channel_block_loop:
  "length (channel_block_loop n_chan nb cw k si sf freqs) = length freqs + (nb - k)"
proof (induction n_chan nb cw k si sf freqs rule: channel_block_loop.induct)
  case (1 n_chan nb cw k si sf freqs)
  show ?case
  proof (cases "k < nb")
    case True
    then show ?thesis
      using 1 by (subst channel_block_loop.simps) (simp add: Let_def)
  next
    case False
    then show ?thesis
      by (subst channel_block_loop.simps) simp
  qed
qed

lemma hd_channel_block_loop:
  "freqs \<noteq> [] \<Longrightarrow> hd (channel_block_loop n_chan nb cw k si sf freqs) = hd freqs"
proof (induction n_chan nb cw k si sf freqs rule: channel_block_loop.induct)
  case (1 n_chan nb cw k si sf freqs)
  show ?case
  proof (cases "k < nb")
    case True
    then show ?thesis
      using 1 by (subst channel_block_loop.simps) (simp add: Let_def)
  next
    case False
    then show ?thesis
      by (subst channel_block_loop.simps) simp
  qed
qed

lemma channel_block_loop_exact:
  assumes "nb * n_chan < SZ" "k \<le> nb" "0 < nb"
    and exact: "\<forall>j. k \<le> j \<and> j < nb \<longrightarrow>
      round_double (real ((j + 1) * n_chan div nb - j * n_chan div nb)) =
        real ((j + 1) * n_chan div nb - j * n_chan div nb) \<and>
      round_double (real ((j + 1) * n_chan div nb - j * n_chan div nb) * cw) =
        real ((j + 1) * n_chan div nb - j * n_chan div nb) * cw \<and>
      round_double (mf + real ((j + 1) * n_chan div nb) * cw) =
        mf + real ((j + 1) * n_chan div nb) * cw"
  shows "channel_block_loop n_chan nb cw k (k * n_chan div nb)
           (mf + real (k * n_chan div nb) * cw) freqs =
         freqs @ map (\<lambda>j. mf + real (j * n_chan div nb) * cw) [k + 1 ..< nb + 1]"
  using assms
proof (induction "nb - k" arbitrary: k freqs)
  case 0
  then have "k = nb" by simp
  then show ?case by (subst channel_block_loop.simps) simp
next
  case (Suc d)
  then have k: "k < nb" by simp
  have "k + 1 \<le> nb" using k by simp
  then have le: "(k + 1) * n_chan \<le> nb * n_chan" by (rule mult_le_mono1)
  then have small: "(k + 1) * n_chan < SZ" using Suc.prems(1) by simp
  have mono: "k * n_chan div nb \<le> (k + 1) * n_chan div nb"
    by (rule div_le_mono) simp
  have lt: "(k + 1) * n_chan div nb < SZ"
    using small by (meson div_le_dividend le_less_trans)
  have bs: "((k + 1) * n_chan div nb + SZ - k * n_chan div nb) mod SZ =
            (k + 1) * n_chan div nb - k * n_chan div nb"
  proof -
    define a where "a = (k + 1) * n_chan div nb"
    define b where "b = k * n_chan div nb"
    have ab: "b \<le> a" "a < SZ" using mono lt by (simp_all add: a_def b_def)
    then have "a + SZ - b = (a - b) + SZ" by simp
    then have "(a + SZ - b) mod SZ = ((a - b) + SZ) mod SZ" by (rule arg_cong)
    also have "\<dots> = (a - b) mod SZ" by (rule mod_add_self2)
    also have "\<dots> = a - b" using ab by (intro mod_less) simp
    finally show ?thesis by (simp only: a_def b_def)
  qed
  from Suc.prems(4) k have ex:
    "round_double (real ((k + 1) * n_chan div nb - k * n_chan div nb)) =
        real ((k + 1) * n_chan div nb - k * n_chan div nb)"
    "round_double (real ((k + 1) * n_chan div nb - k * n_chan div nb) * cw) =
        real ((k + 1) * n_chan div nb - k * n_chan div nb) * cw"
    "round_double (mf + real ((k + 1) * n_chan div nb) * cw) =
        mf + real ((k + 1) * n_chan div nb) * cw"
    by simp_all
  have fr: "mf + real (k * n_chan div nb) * cw +
            real ((k + 1) * n_chan div nb - k * n_chan div nb) * cw =
            mf + real ((k + 1) * n_chan div nb) * cw"
    using mono by (simp add: algebra_simps)
  have next_freq: "round_double (mf + real (k * n_chan div nb) * cw +
      round_double (round_double (real ((k + 1) * n_chan div nb - k * n_chan div nb)) * cw)) =
      mf + real ((k + 1) * n_chan div nb) * cw"
    by (simp only: ex fr)
  have exact': "\<forall>j. k + 1 \<le> j \<and> j < nb \<longrightarrow>
      round_double (real ((j + 1) * n_chan div nb - j * n_chan div nb)) =
        real ((j + 1) * n_chan div nb - j * n_chan div nb) \<and>
      round_double (real ((j + 1) * n_chan div nb - j * n_chan div nb) * cw) =
        real ((j + 1) * n_chan div nb - j * n_chan div nb) * cw \<and>
      round_double (mf + real ((j + 1) * n_chan div nb) * cw) =
        mf + real ((j + 1) * n_chan div nb) * cw"
    using Suc.prems(4) by simp
  have IH: "channel_block_loop n_chan nb cw (k + 1) ((k + 1) * n_chan div nb)
           (mf + real ((k + 1) * n_chan div nb) * cw) (freqs @ [mf + real ((k + 1) * n_chan div nb) * cw]) =
         (freqs @ [mf + real ((k + 1) * n_chan div nb) * cw]) @
           map (\<lambda>j. mf + real (j * n_chan div nb) * cw) [(k + 1) + 1 ..< nb + 1]"
    using Suc.hyps(1)[of "k + 1"] Suc.hyps(2) Suc.prems(1,3) k exact' by simp
  have upt: "[k + 1 ..< nb + 1] = (k + 1) # [(k + 1) + 1 ..< nb + 1]"
    using k by (simp add: upt_conv_Cons)
  show ?case
    apply (subst channel_block_loop.simps)
    using k small apply (simp only: if_True Let_def mod_less bs next_freq)
    apply (simp only: IH upt)
    apply simp
    done
qed

lemma block_index_strict_mono:
  fixes nb n_chan i j :: nat
  assumes "0 < nb" "nb \<le> n_chan" "i < j"
  shows "i * n_chan div nb < j * n_chan div nb"
proof -
  have "i * n_chan + nb \<le> (i + 1) * n_chan" using assms(2) by simp
  also have "\<dots> \<le> j * n_chan" using assms(3) by (intro mult_le_mono1) simp
  finally have "(i * n_chan + nb) div nb \<le> j * n_chan div nb" by (rule div_le_mono)
  moreover have "(i * n_chan + nb) div nb = i * n_chan div nb + 1" using assms(1) by simp
  ultimately show ?thesis by simp
qed

lemma n_channel_blocks_of_bounds:
  "0 < n_channel_blocks_of n t" "1 \<le> n \<Longrightarrow> n_channel_blocks_of n t \<le> n"
proof -
  show "0 < n_channel_blocks_of n t" by (simp add: n_channel_blocks_of_def max_def)
  show "n_channel_blocks_of n t \<le> n" if "1 \<le> n"
    using that by (simp add: n_channel_blocks_of_def max_def)
qed

lemma DetermineChannelBlocks_exact_run:
  assumes ne: "chanFreqs0 (m_info st) \<noteq> []" "chanWidths0 (m_info st) \<noteq> []"
    and ex: "exact_run (m_info st) (n_channels (m_settings st))"
  shows "DetermineChannelBlocks st =
     Inr (st\<lparr>m_chan_block_start_freqs :=
       map (\<lambda>k. min_freq (m_info st) +
              real (k * nchan (m_info st) div
                 n_channel_blocks_of (nchan (m_info st)) (n_channels (m_settings st))) *
              ((max_freq (m_info st) - min_freq (m_info st)) / real (nchan (m_info st))))
         [0 ..< n_channel_blocks_of (nchan (m_info st)) (n_channels (m_settings st)) + 1]\<rparr>)"
proof -
  define n where "n = nchan (m_info st)"
  define nb where "nb = n_channel_blocks_of n (n_channels (m_settings st))"
  define mf where "mf = min_freq (m_info st)"
  define cw where "cw = (max_freq (m_info st) - mf) / real n"
  have nb: "0 < nb" using n_channel_blocks_of_bounds(1)[of n] by (simp add: nb_def)
  from ex have small: "nb * n < SZ"
    and e1: "round_double (max_freq (m_info st) - mf) = max_freq (m_info st) - mf"
    and e2: "round_double (real n) = real n"
    and e3: "round_double cw = cw"
    and e4: "\<forall>j < nb.
      round_double (real ((j + 1) * n div nb - j * n div nb)) =
        real ((j + 1) * n div nb - j * n div nb) \<and>
      round_double (real ((j + 1) * n div nb - j * n div nb) * cw) =
        real ((j + 1) * n div nb - j * n div nb) * cw \<and>
      round_double (mf + real ((j + 1) * n div nb) * cw) = mf + real ((j + 1) * n div nb) * cw"
    by (simp_all add: exact_run_def Let_def n_def nb_def mf_def cw_def list_all_iff)
  have width: "chan_width_of (m_info st) = cw"
    by (simp add: chan_width_of_def e1[unfolded mf_def] e2[unfolded n_def]
        e3[unfolded cw_def mf_def n_def] cw_def mf_def n_def)
  have "channel_block_loop n nb cw 0 (0 * n div nb) (mf + real (0 * n div nb) * cw) [mf] =
        [mf] @ map (\<lambda>j. mf + real (j * n div nb) * cw) [0 + 1 ..< nb + 1]"
    using small nb e4 by (intro channel_block_loop_exact) simp_all
  moreover have "[mf] @ map (\<lambda>j. mf + real (j * n div nb) * cw) [0 + 1 ..< nb + 1] =
        map (\<lambda>j. mf + real (j * n div nb) * cw) [0 ..< nb + 1]"
    by (simp add: upt_conv_Cons)
  ultimately have "channel_block_loop n nb cw 0 0 mf [mf] =
        map (\<lambda>j. mf + real (j * n div nb) * cw) [0 ..< nb + 1]"
    by simp
  then show ?thesis
    using ne by (simp add: DetermineChannelBlocks_def Let_def width n_def nb_def cw_def mf_def)
qed

lemmas blocks_eval = DetermineChannelBlocks_def example_blocks_state_def example_state_def
  example_settings_def n_channel_blocks_of_def min_freq_def max_freq_def chan_width_of_def
  channel_block_loop.simps SZ_def Let_def round_double_values numeral_2_eq_2[symmetric]

subsection \<open>C4: the boundaries of the channel blocks\<close>

text \<open>
  Claim C4, as stated, fails on the code in three of its four parts; only the first
  boundary is always \<open>min_freq\<close>.

  \<^item> The boundaries are not computed from the cumulative channel widths. On the three
    channels \<open>[1, 2]\<close>, \<open>[2, 3]\<close>, \<open>[3, 5]\<close> with one channel per block the boundaries are
    \<open>1\<close>, \<open>2.33...\<close>, \<open>3.66...\<close> and \<open>4.99...\<close>, one mean channel width apart, while the
    cumulative widths give \<open>1, 2, 3, 5\<close>.
  \<^item> The last boundary is not always \<open>max_freq\<close>. On the same channels it is
    \<open>5 - 2 ^ -50\<close>, because every addition of line 173 rounds.
  \<^item> The boundaries are not always strictly increasing. Four channels of width 2 given
    from the highest frequency down, with centres \<open>10, 8, 6, 4\<close>, yield
    \<open>9, 8, 7, 6, 5\<close>. Four channels of width 64 at \<open>2 ^ 60\<close> yield five times
    \<open>2 ^ 60\<close>, since \<open>2 ^ 60 + 64\<close> rounds to \<open>2 ^ 60\<close>; the upper end of that band is
    \<open>2 ^ 60 + 256\<close>.
  \<^item> With \<open>2 ^ 63\<close> channels in two blocks the product \<open>2 * nchan\<close> of line 171 wraps
    around to 0, and the band \<open>[0, 1]\<close> gets the boundaries \<open>0, 1 / 2, 2\<close>.
\<close>

theorem DetermineChannelBlocks_mean_width_and_rounding:
  "DetermineChannelBlocks (example_blocks_state example_info_unequal 1) =
     Inr ((example_blocks_state example_info_unequal 1)
       \<lparr>m_chan_block_start_freqs :=
          [1, 2627099782632789 / 1125899906842624, 2064149829211477 / 562949953421312,
           5629499534213119 / 1125899906842624]\<rparr>) \<and>
   spec_cumulative_width_boundaries (nchan example_info_unequal)
     (n_channel_blocks_of (nchan example_info_unequal) 1) (min_freq example_info_unequal)
     (chanWidths0 example_info_unequal) = [1, 2, 3, 5] \<and>
   max_freq example_info_unequal = 5 \<and>
   5629499534213119 / 1125899906842624 < (5 :: real) \<and>
   DetermineChannelBlocks (example_blocks_state example_info_descending 1) =
     Inr ((example_blocks_state example_info_descending 1)
       \<lparr>m_chan_block_start_freqs := [9, 8, 7, 6, 5]\<rparr>) \<and>
   DetermineChannelBlocks (example_blocks_state example_info_narrow 1) =
     Inr ((example_blocks_state example_info_narrow 1)
       \<lparr>m_chan_block_start_freqs := [2 ^ 60, 2 ^ 60, 2 ^ 60, 2 ^ 60, 2 ^ 60]\<rparr>) \<and>
   max_freq example_info_narrow = 2 ^ 60 + 256 \<and>
   DetermineChannelBlocks (example_blocks_state example_info_huge (2 ^ 62)) =
     Inr ((example_blocks_state example_info_huge (2 ^ 62))
       \<lparr>m_chan_block_start_freqs := [0, 1 / 2, 2]\<rparr>) \<and>
   max_freq example_info_huge = 1"
proof (intro conjI)
  show "DetermineChannelBlocks (example_blocks_state example_info_unequal 1) =
     Inr ((example_blocks_state example_info_unequal 1)
       \<lparr>m_chan_block_start_freqs :=
          [1, 2627099782632789 / 1125899906842624, 2064149829211477 / 562949953421312,
           5629499534213119 / 1125899906842624]\<rparr>)"
    by (simp add: blocks_eval example_info_unequal_def)
  show "spec_cumulative_width_boundaries (nchan example_info_unequal)
     (n_channel_blocks_of (nchan example_info_unequal) 1) (min_freq example_info_unequal)
     (chanWidths0 example_info_unequal) = [1, 2, 3, 5]"
    by (simp add: spec_cumulative_width_boundaries_def example_info_unequal_def
        n_channel_blocks_of_def min_freq_def round_double_values upt_conv_Cons)
  show "max_freq example_info_unequal = 5"
    by (simp add: max_freq_def example_info_unequal_def round_double_values)
  show "5629499534213119 / 1125899906842624 < (5 :: real)" by simp
  show "DetermineChannelBlocks (example_blocks_state example_info_descending 1) =
     Inr ((example_blocks_state example_info_descending 1)
       \<lparr>m_chan_block_start_freqs := [9, 8, 7, 6, 5]\<rparr>)"
    by (simp add: blocks_eval example_info_descending_def)
  show "DetermineChannelBlocks (example_blocks_state example_info_narrow 1) =
     Inr ((example_blocks_state example_info_narrow 1)
       \<lparr>m_chan_block_start_freqs := [2 ^ 60, 2 ^ 60, 2 ^ 60, 2 ^ 60, 2 ^ 60]\<rparr>)"
    by (simp add: blocks_eval example_info_narrow_def)
  show "max_freq example_info_narrow = 2 ^ 60 + 256"
    by (simp add: max_freq_def example_info_narrow_def round_double_values)
  show "DetermineChannelBlocks (example_blocks_state example_info_huge (2 ^ 62)) =
     Inr ((example_blocks_state example_info_huge (2 ^ 62))
       \<lparr>m_chan_block_start_freqs := [0, 1 / 2, 2]\<rparr>)"
    by (simp add: blocks_eval example_info_huge_def)
  show "max_freq example_info_huge = 1"
    by (simp add: max_freq_def example_info_huge_def round_double_values)
qed

text \<open>
  Claim C4, amended. For every channel configuration with a first and a last channel and
  every number of channels per block, \<^verbatim>\<open>DetermineChannelBlocks\<close> succeeds, the first
  boundary is \<open>min_freq\<close>, and the boundaries depend only on the number of channels, the
  number of channels per block and the two ends of the band: a configuration that agrees in
  these gets the same boundaries, whatever the widths of its channels are (the channels
  are taken to be equally wide). If there is at least one channel and the computation is
  exact (no product of indices wraps around, no floating-point operation has to round),
  then boundary \<open>k\<close> is \<open>min_freq\<close> plus \<open>k * nchan div n_blocks\<close> times the mean channel
  width \<open>(max_freq - min_freq) / nchan\<close>, the last boundary is \<open>max_freq\<close>, and the
  boundaries are strictly increasing when \<open>min_freq < max_freq\<close> and strictly decreasing
  when \<open>max_freq < min_freq\<close>.
\<close>

theorem DetermineChannelBlocks_boundaries:
  fixes st :: "('c, 'r) BdaDdeCal"
  assumes "chanFreqs0 (m_info st) \<noteq> []" "chanWidths0 (m_info st) \<noteq> []"
  shows "\<exists>st'. DetermineChannelBlocks st = Inr st' \<and>
           hd (m_chan_block_start_freqs st') = min_freq (m_info st) \<and>
           (\<forall>st2 :: ('c, 'r) BdaDdeCal.
                  chanFreqs0 (m_info st2) \<noteq> [] \<and> chanWidths0 (m_info st2) \<noteq> [] \<and>
                  nchan (m_info st2) = nchan (m_info st) \<and>
                  n_channels (m_settings st2) = n_channels (m_settings st) \<and>
                  min_freq (m_info st2) = min_freq (m_info st) \<and>
                  max_freq (m_info st2) = max_freq (m_info st) \<longrightarrow>
                  DetermineChannelBlocks st2 =
                    Inr (st2\<lparr>m_chan_block_start_freqs := m_chan_block_start_freqs st'\<rparr>)) \<and>
           (1 \<le> nchan (m_info st) \<and> exact_run (m_info st) (n_channels (m_settings st)) \<longrightarrow>
              (\<forall>k < length (m_chan_block_start_freqs st').
                 m_chan_block_start_freqs st' ! k =
                   min_freq (m_info st) +
                   real (k * nchan (m_info st) div
                           n_channel_blocks_of (nchan (m_info st)) (n_channels (m_settings st))) *
                   ((max_freq (m_info st) - min_freq (m_info st)) / real (nchan (m_info st)))) \<and>
              last (m_chan_block_start_freqs st') = max_freq (m_info st) \<and>
              (min_freq (m_info st) < max_freq (m_info st) \<longrightarrow>
                 sorted_wrt (<) (m_chan_block_start_freqs st')) \<and>
              (max_freq (m_info st) < min_freq (m_info st) \<longrightarrow>
                 sorted_wrt (\<lambda>a b. b < a) (m_chan_block_start_freqs st')))"
proof -
  define n where "n = nchan (m_info st)"
  define nb where "nb = n_channel_blocks_of n (n_channels (m_settings st))"
  define mf where "mf = min_freq (m_info st)"
  define cw where "cw = (max_freq (m_info st) - mf) / real n"
  define f where "f = (\<lambda>k. mf + real (k * n div nb) * cw)"
  define bs where "bs = channel_block_loop n nb (chan_width_of (m_info st)) 0 0 mf [mf]"
  define st' where "st' = st\<lparr>m_chan_block_start_freqs := bs\<rparr>"
  have run: "DetermineChannelBlocks st = Inr st'"
    using assms by (simp add: DetermineChannelBlocks_def Let_def st'_def bs_def n_def nb_def mf_def)
  have sel: "m_chan_block_start_freqs st' = bs" by (simp add: st'_def)
  have first: "hd bs = mf"
    by (simp add: bs_def hd_channel_block_loop)
  have indep: "DetermineChannelBlocks st2 = Inr (st2\<lparr>m_chan_block_start_freqs := bs\<rparr>)"
    if "chanFreqs0 (m_info st2) \<noteq> [] \<and> chanWidths0 (m_info st2) \<noteq> [] \<and>
        nchan (m_info st2) = nchan (m_info st) \<and>
        n_channels (m_settings st2) = n_channels (m_settings st) \<and>
        min_freq (m_info st2) = min_freq (m_info st) \<and>
        max_freq (m_info st2) = max_freq (m_info st)" for st2 :: "('c, 'r) BdaDdeCal"
    using that
    by (simp add: DetermineChannelBlocks_def Let_def bs_def n_def nb_def mf_def chan_width_of_def)
  have exact: "(\<forall>k < length bs. bs ! k = f k) \<and> last bs = max_freq (m_info st) \<and>
      (mf < max_freq (m_info st) \<longrightarrow> sorted_wrt (<) bs) \<and>
      (max_freq (m_info st) < mf \<longrightarrow> sorted_wrt (\<lambda>a b. b < a) bs)"
    if n1: "1 \<le> n" and ex: "exact_run (m_info st) (n_channels (m_settings st))"
  proof -
    have "Inr st' = Inr (st\<lparr>m_chan_block_start_freqs := map f [0 ..< nb + 1]\<rparr>)"
      using DetermineChannelBlocks_exact_run[OF assms ex] run
      by (simp add: f_def n_def nb_def mf_def cw_def)
    then have "m_chan_block_start_freqs st' =
        m_chan_block_start_freqs (st\<lparr>m_chan_block_start_freqs := map f [0 ..< nb + 1]\<rparr>)"
      by (simp only: sum.inject)
    then have bs: "bs = map f [0 ..< nb + 1]"
      by (simp add: st'_def del: upt_Suc)
    have nb: "0 < nb" "nb \<le> n"
      using n1 n_channel_blocks_of_bounds[of n] by (simp_all add: nb_def)
    have idx: "i * n div nb < j * n div nb" if "i < j" for i j
      using block_index_strict_mono[OF nb that] .
    have up: "f i < f j" if "i < j" "0 < cw" for i j
      using idx[OF that(1)] that(2) by (simp add: f_def)
    have down: "f j < f i" if "i < j" "cw < 0" for i j
      using idx[OF that(1)] that(2) by (simp add: f_def mult_less_cancel_right)
    have cw_pos: "0 < cw" if "mf < max_freq (m_info st)"
      using that n1 by (simp add: cw_def)
    have cw_neg: "cw < 0" if "max_freq (m_info st) < mf"
      using that n1 by (simp add: cw_def divide_neg_pos)
    have "f nb = mf + real n * cw" using nb by (simp add: f_def)
    also have "\<dots> = max_freq (m_info st)" using n1 by (simp add: cw_def)
    finally have last: "last (map f [0 ..< nb + 1]) = max_freq (m_info st)"
      by (simp add: last_map)
    have nth: "\<forall>k < length (map f [0 ..< nb + 1]). map f [0 ..< nb + 1] ! k = f k"
      by (simp del: upt_Suc)
    have inc: "mf < max_freq (m_info st) \<longrightarrow> sorted_wrt (<) (map f [0 ..< nb + 1])"
      using up cw_pos by (simp add: sorted_wrt_iff_nth_less del: upt_Suc)
    have dec: "max_freq (m_info st) < mf \<longrightarrow> sorted_wrt (\<lambda>a b. b < a) (map f [0 ..< nb + 1])"
      using down cw_neg by (simp add: sorted_wrt_iff_nth_less del: upt_Suc)
    show ?thesis unfolding bs by (intro conjI nth last inc dec)
  qed
  have main: "DetermineChannelBlocks st = Inr st' \<and>
      hd (m_chan_block_start_freqs st') = mf \<and>
      (\<forall>st2 :: ('c, 'r) BdaDdeCal. chanFreqs0 (m_info st2) \<noteq> [] \<and> chanWidths0 (m_info st2) \<noteq> [] \<and>
                  nchan (m_info st2) = nchan (m_info st) \<and>
                  n_channels (m_settings st2) = n_channels (m_settings st) \<and>
                  min_freq (m_info st2) = min_freq (m_info st) \<and>
                  max_freq (m_info st2) = max_freq (m_info st) \<longrightarrow>
                  DetermineChannelBlocks st2 =
                    Inr (st2\<lparr>m_chan_block_start_freqs := m_chan_block_start_freqs st'\<rparr>)) \<and>
      (1 \<le> n \<and> exact_run (m_info st) (n_channels (m_settings st)) \<longrightarrow>
         (\<forall>k < length (m_chan_block_start_freqs st'). m_chan_block_start_freqs st' ! k = f k) \<and>
         last (m_chan_block_start_freqs st') = max_freq (m_info st) \<and>
         (mf < max_freq (m_info st) \<longrightarrow> sorted_wrt (<) (m_chan_block_start_freqs st')) \<and>
         (max_freq (m_info st) < mf \<longrightarrow>
            sorted_wrt (\<lambda>a b. b < a) (m_chan_block_start_freqs st')))"
    unfolding sel using run first indep exact by blast
  show ?thesis
    using main unfolding f_def mf_def cw_def nb_def n_def by (rule exI[of _ st'])
qed

theorem DetermineChannelBlocks_boundaries_witness:
  "exact_run (m_info (example_blocks_state example_info 2))
     (n_channels (m_settings (example_blocks_state example_info 2))) \<and>
   (\<exists>st'. DetermineChannelBlocks (example_blocks_state example_info 2) = Inr st' \<and>
         hd (m_chan_block_start_freqs st') = 0 \<and>
         last (m_chan_block_start_freqs st') = 6 \<and>
         sorted_wrt (<) (m_chan_block_start_freqs st'))"
proof -
  have ex: "exact_run (m_info (example_blocks_state example_info 2))
     (n_channels (m_settings (example_blocks_state example_info 2)))"
    by (simp add: exact_run_def example_blocks_state_def example_state_def example_settings_def
        example_info_def n_channel_blocks_of_def min_freq_def max_freq_def
        SZ_def Let_def upt_conv_Cons round_double_values numeral_2_eq_2[symmetric])
  have info: "m_info (example_blocks_state example_info 2) = example_info"
    by (simp add: example_blocks_state_def example_state_def)
  have vals: "min_freq example_info = 0" "max_freq example_info = 6" "nchan example_info = 4"
    "chanFreqs0 example_info \<noteq> []" "chanWidths0 example_info \<noteq> []"
    by (simp_all add: min_freq_def max_freq_def example_info_def round_double_values)
  show ?thesis
    using DetermineChannelBlocks_boundaries [of "example_blocks_state example_info 2"] ex
    unfolding info by (simp add: vals) blast
qed

subsection \<open>C5: the number of channel blocks\<close>

text \<open>
  Claim C5. For every number of channels (a \<^verbatim>\<open>size_t\<close>) with a non-empty list of channel
  frequencies and widths, and every configured number of channels per block,
  \<^verbatim>\<open>DetermineChannelBlocks\<close> succeeds, the array of boundaries has one entry more than
  there are channel blocks, and the number of channel blocks is
  \<open>max 1 (nchan div n_channels)\<close> when the number of channels per block is set; it is 1
  when that number is not set (zero) or exceeds the number of channels.
\<close>

theorem DetermineChannelBlocks_block_count:
  assumes "chanFreqs0 (m_info st) \<noteq> []" "chanWidths0 (m_info st) \<noteq> []"
    and "nchan (m_info st) < SZ"
  shows "\<exists>st'. DetermineChannelBlocks st = Inr st' \<and>
           length (m_chan_block_start_freqs st') = n_channel_blocks st' + 1 \<and>
           (0 < n_channels (m_settings st) \<longrightarrow>
              n_channel_blocks st' = max 1 (nchan (m_info st) div n_channels (m_settings st))) \<and>
           (n_channels (m_settings st) = 0 \<or> nchan (m_info st) < n_channels (m_settings st) \<longrightarrow>
              n_channel_blocks st' = 1)"
proof -
  define nb where "nb = n_channel_blocks_of (nchan (m_info st)) (n_channels (m_settings st))"
  define st' where "st' = st\<lparr>m_chan_block_start_freqs :=
       channel_block_loop (nchan (m_info st)) nb (chan_width_of (m_info st)) 0 0
         (min_freq (m_info st)) [min_freq (m_info st)]\<rparr>"
  have run: "DetermineChannelBlocks st = Inr st'"
    using assms(1,2) by (simp add: DetermineChannelBlocks_def Let_def st'_def nb_def)
  have len: "length (m_chan_block_start_freqs st') = nb + 1"
    by (simp add: st'_def length_channel_block_loop)
  have "nb \<le> max 1 (nchan (m_info st))"
    by (simp add: nb_def n_channel_blocks_of_def max_def)
  then have "nb < SZ" using assms(3) by (simp add: max_def SZ_def split: if_splits)
  then have nbs: "n_channel_blocks st' = nb"
    by (simp add: n_channel_blocks_def len)
  have "0 < n_channels (m_settings st) \<longrightarrow> nb = max 1 (nchan (m_info st) div n_channels (m_settings st))"
    by (simp add: nb_def n_channel_blocks_of_def max.commute)
  moreover have "n_channels (m_settings st) = 0 \<or> nchan (m_info st) < n_channels (m_settings st) \<longrightarrow> nb = 1"
    by (auto simp add: nb_def n_channel_blocks_of_def)
  ultimately show ?thesis using run len nbs by simp
qed

theorem DetermineChannelBlocks_block_count_witness:
  "\<exists>st'. DetermineChannelBlocks
            (example_state ((example_settings False False False False)\<lparr>n_channels := 2\<rparr>)
               example_info (example_solver 50 1)) = Inr st' \<and>
         length (m_chan_block_start_freqs st') = 3 \<and> n_channel_blocks st' = 2"
  using DetermineChannelBlocks_block_count
    [of "example_state ((example_settings False False False False)\<lparr>n_channels := 2\<rparr>)
           example_info (example_solver 50 1)"]
  by (auto simp add: example_state_def example_settings_def example_info_def SZ_def)

subsection \<open>The solution-interval driver: the initial solutions in closed form\<close>

text \<open>
  When the previous solution has the shape of the new one and \<^verbatim>\<open>iterations_\<close> has one
  entry per solved interval, \<^verbatim>\<open>InitializeCurrentSolutions\<close> succeeds on the state that
  lines 276-293 prepare, and the new entry of \<^verbatim>\<open>solutions_\<close> is either the previous entry
  or the neutral solution.
\<close>

lemma copy_blocks_same_shape:
  "list_all2 (\<lambda>c p. length c = length p) cur prev \<Longrightarrow> copy_blocks cur prev = Inr prev"
  by (induction cur prev rule: list_all2_induct) simp_all

lemma unity_block_multiple_of_4:
  "length xs = 4 * m \<Longrightarrow> unity_block xs = Inr (concat (replicate m [1, 0, 0, 1]))"
proof (induction m arbitrary: xs)
  case 0
  then show ?case by simp
next
  case (Suc m)
  then have "length xs = Suc (Suc (Suc (Suc (4 * m))))" by simp
  then obtain a b c d rest where xs: "xs = a # b # c # d # rest"
    by (auto simp add: length_Suc_conv)
  with Suc.prems have "length rest = 4 * m" by simp
  then show ?case using Suc.IH xs by simp
qed

lemma for_each_block_replicate:
  "f x = Inr y \<Longrightarrow> for_each_block f (replicate n x) = Inr (replicate n y)"
  by (induction n) simp_all

lemma replicate_same_shape:
  assumes "length prev = n" "\<forall>b \<in> set prev. length b = m"
  shows "list_all2 (\<lambda>c p. length c = length p) (replicate n (replicate m x)) prev"
  using assms by (auto simp add: list_all2_conv_all_nth)

lemma InitializeCurrentSolutions_emplace:
  assumes solver: "m_solver st = Some solver"
    and shape: "m_solutions st \<noteq> [] \<longrightarrow>
                 length (last (m_solutions st)) = n_channel_blocks st \<and>
                 (\<forall>b \<in> set (last (m_solutions st)). length b = block_solution_size st solver)"
    and iters: "length (m_iterations st) = length (m_solutions st)"
  shows "InitializeCurrentSolutions (emplace_solutions st solver) =
     Inr (st\<lparr>m_solutions := m_solutions st @
       [if m_solutions st \<noteq> [] \<and> propagate_solutions (m_settings st) \<and>
           \<not> (propagate_converged_only (m_settings st) \<and>
              last (m_iterations st) > max_iterations solver)
        then last (m_solutions st)
        else spec_neutral_solution (n_channel_blocks st)
               (length (directions (m_settings st)) * n_antennaUsed (m_info st))
               (NSolutionPolarizations solver)]\<rparr>)"
proof -
  define new where "new = replicate (n_channel_blocks st)
      (replicate (block_solution_size st solver) (1::complex))"
  define ste where "ste = emplace_solutions st solver"
  define n where "n = length (m_solutions ste)"
  have sols: "m_solutions ste = m_solutions st @ [new]"
    by (simp add: ste_def emplace_solutions_def new_def)
  have f0: "m_settings ste = m_settings st" "m_solver ste = Some solver"
    by (simp_all add: ste_def emplace_solutions_def solver)
  have f1: "m_solutions ste \<noteq> []" "last (m_solutions ste) = new"
    "butlast (m_solutions ste) = m_solutions st" "(1 < n) = (m_solutions st \<noteq> [])"
    by (simp_all add: sols n_def)
  have upd: "ste\<lparr>m_solutions := xs\<rparr> = st\<lparr>m_solutions := xs\<rparr>" for xs
    by (simp add: ste_def emplace_solutions_def)
  have f2: "n - 2 < length (m_iterations ste)"
    "m_iterations ste ! (n - 2) = last (m_iterations st)"
    "m_solutions ste ! (n - 2) = last (m_solutions st)" if "m_solutions st \<noteq> []"
  proof -
    have n2: "n - 2 = length (m_solutions st) - 1" by (simp add: n_def sols)
    have its: "m_iterations ste = m_iterations st" by (simp add: ste_def emplace_solutions_def)
    show "n - 2 < length (m_iterations ste)" using that iters by (simp add: n2 its)
    have "m_iterations st \<noteq> []" using that iters by auto
    then show "m_iterations ste ! (n - 2) = last (m_iterations st)"
      using iters by (simp add: n2 its last_conv_nth)
    show "m_solutions ste ! (n - 2) = last (m_solutions st)"
      using that by (simp add: n2 sols nth_append last_conv_nth)
  qed
  have u4: "for_each_block unity_block new =
        Inr (replicate (n_channel_blocks st)
          (concat (replicate (length (directions (m_settings st)) * n_antennaUsed (m_info st))
             [1, 0, 0, 1])))" if "NSolutionPolarizations solver = 4"
    unfolding new_def using that
    by (intro for_each_block_replicate unity_block_multiple_of_4)
      (simp add: block_solution_size_def)
  have m1: "map (\<lambda>block_solution. replicate (length block_solution) (1::complex)) new = new"
    by (simp add: new_def)
  have unfolded: "InitializeCurrentSolutions ste =
     (if (1 < n \<and> propagate_solutions (m_settings st)) \<and>
         propagate_converged_only (m_settings st) \<and> \<not> n - 2 < length (m_iterations ste)
      then Inl (OutOfBounds ''iterations_[solutions_.size() - 2]'')
      else if (if (1 < n \<and> propagate_solutions (m_settings st)) \<and>
                  propagate_converged_only (m_settings st) \<and>
                  m_iterations ste ! (n - 2) > max_iterations solver
               then False else (1 < n \<and> propagate_solutions (m_settings st)))
      then if length new \<noteq> length (m_solutions ste ! (n - 2))
           then Inl (AssertionFailed ''current_solution.size() == prev_solution.size()'')
           else (case copy_blocks new (m_solutions ste ! (n - 2)) of
                   Inl e \<Rightarrow> Inl e
                 | Inr new_solution \<Rightarrow> Inr (st\<lparr>m_solutions := m_solutions st @ [new_solution]\<rparr>))
      else if NSolutionPolarizations solver = 4
      then (case for_each_block unity_block new of
              Inl e \<Rightarrow> Inl e
            | Inr new_solution \<Rightarrow> Inr (st\<lparr>m_solutions := m_solutions st @ [new_solution]\<rparr>))
      else Inr (st\<lparr>m_solutions := m_solutions st @ [new]\<rparr>))"
    unfolding InitializeCurrentSolutions_def Let_def n_def[symmetric]
    by (simp only: f0 f1(1-3) upd m1 GetMaxIterations_def if_False option.sel option.simps
        simp_thms)
  have start: "InitializeCurrentSolutions (emplace_solutions st solver) =
      InitializeCurrentSolutions ste"
    by (simp only: ste_def)
  show ?thesis
  proof (cases "m_solutions st = []")
    case empty: True
    then have n1: "\<not> 1 < n" using f1(4) by simp
    show ?thesis
    proof (cases "NSolutionPolarizations solver = 4")
      case True
      then show ?thesis
        using empty n1 by (simp add: start unfolded u4[OF True] spec_neutral_solution_def)
    next
      case False
      then show ?thesis
        using empty n1
        by (simp add: start unfolded spec_neutral_solution_def new_def block_solution_size_def)
    qed
  next
    case ne: False
    have cp: "copy_blocks new (last (m_solutions st)) = Inr (last (m_solutions st))"
      unfolding new_def using shape ne
      by (intro copy_blocks_same_shape replicate_same_shape) simp_all
    have len: "length new = length (last (m_solutions st))"
      using shape ne by (simp add: new_def)
    have n1: "1 < n" using ne f1(4) by simp
    show ?thesis
    proof (cases "propagate_solutions (m_settings st) \<and>
           \<not> (propagate_converged_only (m_settings st) \<and>
              last (m_iterations st) > max_iterations solver)")
      case True
      then show ?thesis
        using ne n1 by (auto simp add: start unfolded f2[OF ne] cp len)
    next
      case np: False
      show ?thesis
      proof (cases "NSolutionPolarizations solver = 4")
        case True
        show ?thesis
          using ne n1 np True
          by (auto simp add: start unfolded f2[OF ne] u4[OF True] spec_neutral_solution_def)
      next
        case False
        show ?thesis
          using ne n1 np False
          by (auto simp add: start unfolded f2[OF ne] spec_neutral_solution_def new_def
              block_solution_size_def)
      qed
    qed
  qed
qed

subsection \<open>The solution-interval driver: a completed call\<close>

text \<open>
  A call of \<^verbatim>\<open>SolveCurrentInterval\<close> that completes has passed every \<^verbatim>\<open>assert\<close>, and
  its final state is the old state with one more entry in each of the four vectors.
\<close>

lemma InitializeCurrentSolutions_cases:
  "case InitializeCurrentSolutions st of
     Inl e \<Rightarrow> True
   | Inr st' \<Rightarrow> \<exists>new. st' = st\<lparr>m_solutions := butlast (m_solutions st) @ [new]\<rparr>"
  unfolding InitializeCurrentSolutions_def Let_def
  by (simp split: sum.split) blast

lemma InitializeCurrentSolutions_Inr:
  assumes "InitializeCurrentSolutions st = Inr st'"
  shows "\<exists>new. st' = st\<lparr>m_solutions := butlast (m_solutions st) @ [new]\<rparr>"
  using InitializeCurrentSolutions_cases[of st] assms by simp

lemma flag_unconverged_weights_shape:
  "list_ex (\<lambda>cr. cr \<noteq> []) (results (flag_unconverged_weights settings max_iter result)) =
   list_ex (\<lambda>cr. cr \<noteq> []) (results result)"
  by (simp add: flag_unconverged_weights_def map_weights_def list_ex_iff)

lemma if_update_constraint_solutions:
  "(if b then s\<lparr>m_constraint_solutions := x\<rparr> else s\<lparr>m_constraint_solutions := y\<rparr>) =
   s\<lparr>m_constraint_solutions := (if b then x else y)\<rparr>"
  by simp

lemma SolveCurrentInterval_Inr:
  assumes "SolveCurrentInterval Solve bi st = Inr st'"
  shows "\<exists>solver st1. m_solver st = Some solver \<and> bi = length (m_solutions st) \<and>
           InitializeCurrentSolutions (emplace_solutions st solver) = Inr st1 \<and>
           length (m_iterations st) = length (m_solutions st) mod SZ \<and>
           length (m_approx_iterations st) = length (m_solutions st) mod SZ \<and>
           length (m_constraint_solutions st) = length (m_solutions st) \<and>
           st' = st\<lparr>m_solutions := m_solutions st @ [fst (Solve (last (m_solutions st1)))],
                     m_iterations := m_iterations st @
                       [iterations (snd (Solve (last (m_solutions st1))))],
                     m_approx_iterations := m_approx_iterations st @
                       [constraint_iterations (snd (Solve (last (m_solutions st1))))],
                     m_constraint_solutions := m_constraint_solutions st @
                       [if list_ex (\<lambda>cr. cr \<noteq> []) (results (snd (Solve (last (m_solutions st1)))))
                        then results (flag_unconverged_weights (m_settings st)
                               (GetMaxIterations solver) (snd (Solve (last (m_solutions st1)))))
                        else []]\<rparr>"
proof -
  have bi: "length (m_solutions st) = bi"
  proof (rule ccontr)
    assume "length (m_solutions st) \<noteq> bi"
    then have "SolveCurrentInterval Solve bi st =
        Inl (AssertionFailed ''current_interval == solver_buffer_->GetCurrentInterval()'')"
      by (simp add: SolveCurrentInterval_def)
    with assms show False by simp
  qed
  obtain solver where solver: "m_solver st = Some solver"
  proof (cases "m_solver st")
    case None
    then have "SolveCurrentInterval Solve bi st = Inl (OutOfBounds ''solver_ is null'')"
      by (simp add: SolveCurrentInterval_def bi)
    with assms show ?thesis by simp
  next
    case (Some solver)
    then show ?thesis by (rule that)
  qed
  obtain st1 where init: "InitializeCurrentSolutions (emplace_solutions st solver) = Inr st1"
  proof (cases "InitializeCurrentSolutions (emplace_solutions st solver)")
    case (Inl e)
    then have "SolveCurrentInterval Solve bi st = Inl e"
      by (simp add: SolveCurrentInterval_def bi solver)
    with assms show ?thesis by simp
  next
    case (Inr st1)
    then show ?thesis by (rule that)
  qed
  from InitializeCurrentSolutions_Inr[OF init] obtain new where
    st1: "st1 = st\<lparr>m_solutions := m_solutions st @ [new]\<rparr>"
    by (auto simp add: emplace_solutions_def)
  have lastnew: "last (m_solutions st1) = new" by (simp add: st1)
  obtain final result where S: "Solve new = (final, result)"
    by (cases "Solve new")
  have wrap: "(Suc (length (m_solutions st)) + SZ - 1) mod SZ = length (m_solutions st) mod SZ"
    by simp
  note defs = SolveCurrentInterval_def bi solver init S Let_def st1 wrap
    flag_unconverged_weights_shape if_update_constraint_solutions
  have a: "length (m_iterations st) = length (m_solutions st) mod SZ"
  proof (rule ccontr)
    assume "length (m_iterations st) \<noteq> length (m_solutions st) mod SZ"
    then have "SolveCurrentInterval Solve bi st =
        Inl (AssertionFailed ''iterations_.size() == solutions_.size() - 1'')"
      by (simp add: defs split del: if_split)
    with assms show False by simp
  qed
  have b: "length (m_approx_iterations st) = length (m_solutions st) mod SZ"
  proof (rule ccontr)
    assume "length (m_approx_iterations st) \<noteq> length (m_solutions st) mod SZ"
    then have "SolveCurrentInterval Solve bi st =
        Inl (AssertionFailed ''approx_iterations_.size() == solutions_.size() - 1'')"
      by (simp add: defs a split del: if_split)
    with assms show False by simp
  qed
  have c: "length (m_constraint_solutions st) = length (m_solutions st)"
  proof (rule ccontr)
    assume "length (m_constraint_solutions st) \<noteq> length (m_solutions st)"
    then have "SolveCurrentInterval Solve bi st =
        Inl (AssertionFailed ''solutions_.size() == constraint_solutions_.size()'')"
      by (simp add: defs a b if_distrib[where f = length] split del: if_split cong: if_cong)
    with assms show False by simp
  qed
  have "SolveCurrentInterval Solve bi st =
     Inr (st\<lparr>m_solutions := m_solutions st @ [final],
       m_iterations := m_iterations st @ [iterations result],
       m_approx_iterations := m_approx_iterations st @ [constraint_iterations result],
       m_constraint_solutions := m_constraint_solutions st @
         [if list_ex (\<lambda>cr. cr \<noteq> []) (results result)
          then results (flag_unconverged_weights (m_settings st) (GetMaxIterations solver) result)
          else []]\<rparr>)"
    by (simp add: defs a b c if_distrib[where f = length] cong: if_cong)
  with assms have e: "st' = st\<lparr>m_solutions := m_solutions st @ [fst (Solve (last (m_solutions st1)))],
                     m_iterations := m_iterations st @
                       [iterations (snd (Solve (last (m_solutions st1))))],
                     m_approx_iterations := m_approx_iterations st @
                       [constraint_iterations (snd (Solve (last (m_solutions st1))))],
                     m_constraint_solutions := m_constraint_solutions st @
                       [if list_ex (\<lambda>cr. cr \<noteq> []) (results (snd (Solve (last (m_solutions st1)))))
                        then results (flag_unconverged_weights (m_settings st)
                               (GetMaxIterations solver) (snd (Solve (last (m_solutions st1)))))
                        else []]\<rparr>"
    by (auto simp add: lastnew S)
  show ?thesis
    by (rule exI[of _ solver], rule exI[of _ st1], intro conjI)
      (fact solver bi[symmetric] init a b c e)+
qed

subsection \<open>Facts about the concrete inputs\<close>

lemma example_solved_state_ok:
  "m_solver (example_solved_state settings n_pol it) = Some (example_solver 5 n_pol)"
  "m_solutions (example_solved_state settings n_pol it) = [replicate 2 (replicate (3 * n_pol) 7)]"
  "m_iterations (example_solved_state settings n_pol it) = [it]"
  "m_settings (example_solved_state settings n_pol it) = settings"
  "n_channel_blocks (example_solved_state settings n_pol it) = 2"
  "directions settings = [''d0''] \<Longrightarrow>
     block_solution_size (example_solved_state settings n_pol it) (example_solver 5 n_pol) = 3 * n_pol"
  "n_antennaUsed (m_info (example_solved_state settings n_pol it)) = 3"
  by (simp_all add: example_solved_state_def example_state_def example_solver_def
      n_channel_blocks_def block_solution_size_def example_info_def SZ_def)

subsection \<open>C3: the initial solutions of an interval\<close>

text \<open>
  Claim C3. Let the driver have solved some intervals (\<^verbatim>\<open>iterations_\<close> has one entry per
  entry of \<^verbatim>\<open>solutions_\<close>, and the last entry of \<^verbatim>\<open>solutions_\<close> has the shape of a
  new entry). Then the initialisation of the next interval succeeds, leaves the earlier
  solutions as they are, and the initial solution of the new interval is: the final
  solution of the previous interval, block by block and element by element, if there is a
  previous interval, propagation is enabled and it is not the case that
  "converged only" is enabled and the previous interval needed more than the maximum
  number of iterations; the neutral solution if "converged only" is enabled and the
  previous interval needed more than the maximum number of iterations; the neutral
  solution for the first interval and whenever propagation is disabled. The neutral
  solution is the 2x2 identity matrix per antenna and direction for four polarizations
  and 1.0 per entry otherwise.
\<close>

theorem InitializeCurrentSolutions_initial_solution:
  assumes "m_solver st = Some solver"
    and "m_solutions st \<noteq> [] \<longrightarrow>
           length (last (m_solutions st)) = n_channel_blocks st \<and>
           (\<forall>b \<in> set (last (m_solutions st)). length b = block_solution_size st solver)"
    and "length (m_iterations st) = length (m_solutions st)"
  shows "\<exists>initial.
     InitializeCurrentSolutions (emplace_solutions st solver) =
       Inr (st\<lparr>m_solutions := m_solutions st @ [initial]\<rparr>) \<and>
     (m_solutions st \<noteq> [] \<and> propagate_solutions (m_settings st) \<and>
      \<not> (propagate_converged_only (m_settings st) \<and>
         max_iterations solver < last (m_iterations st)) \<longrightarrow>
        initial = last (m_solutions st)) \<and>
     (m_solutions st \<noteq> [] \<and> propagate_solutions (m_settings st) \<and>
      propagate_converged_only (m_settings st) \<and>
      max_iterations solver < last (m_iterations st) \<longrightarrow>
        initial = spec_neutral_solution (n_channel_blocks st)
          (length (directions (m_settings st)) * n_antennaUsed (m_info st))
          (NSolutionPolarizations solver)) \<and>
     (m_solutions st = [] \<or> \<not> propagate_solutions (m_settings st) \<longrightarrow>
        initial = spec_neutral_solution (n_channel_blocks st)
          (length (directions (m_settings st)) * n_antennaUsed (m_info st))
          (NSolutionPolarizations solver))"
proof -
  define initial where "initial =
     (if m_solutions st \<noteq> [] \<and> propagate_solutions (m_settings st) \<and>
         \<not> (propagate_converged_only (m_settings st) \<and>
            last (m_iterations st) > max_iterations solver)
      then last (m_solutions st)
      else spec_neutral_solution (n_channel_blocks st)
             (length (directions (m_settings st)) * n_antennaUsed (m_info st))
             (NSolutionPolarizations solver))"
  have "InitializeCurrentSolutions (emplace_solutions st solver) =
       Inr (st\<lparr>m_solutions := m_solutions st @ [initial]\<rparr>)"
    unfolding initial_def by (rule InitializeCurrentSolutions_emplace[OF assms])
  moreover have "m_solutions st \<noteq> [] \<and> propagate_solutions (m_settings st) \<and>
      \<not> (propagate_converged_only (m_settings st) \<and>
         max_iterations solver < last (m_iterations st)) \<longrightarrow>
        initial = last (m_solutions st)"
    by (simp add: initial_def)
  moreover have "m_solutions st \<noteq> [] \<and> propagate_solutions (m_settings st) \<and>
      propagate_converged_only (m_settings st) \<and>
      max_iterations solver < last (m_iterations st) \<longrightarrow>
        initial = spec_neutral_solution (n_channel_blocks st)
          (length (directions (m_settings st)) * n_antennaUsed (m_info st))
          (NSolutionPolarizations solver)"
    by (simp add: initial_def)
  moreover have "m_solutions st = [] \<or> \<not> propagate_solutions (m_settings st) \<longrightarrow>
        initial = spec_neutral_solution (n_channel_blocks st)
          (length (directions (m_settings st)) * n_antennaUsed (m_info st))
          (NSolutionPolarizations solver)"
    by (auto simp add: initial_def)
  ultimately show ?thesis by (intro exI[of _ initial] conjI)
qed

theorem InitializeCurrentSolutions_initial_solution_witness:
  "InitializeCurrentSolutions
     (emplace_solutions (example_solved_state (example_settings False False True True) 4 3)
        (example_solver 5 4)) =
   Inr ((example_solved_state (example_settings False False True True) 4 3)
          \<lparr>m_solutions := [replicate 2 (replicate 12 7), replicate 2 (replicate 12 7)]\<rparr>) \<and>
   InitializeCurrentSolutions
     (emplace_solutions (example_solved_state (example_settings False False True True) 4 6)
        (example_solver 5 4)) =
   Inr ((example_solved_state (example_settings False False True True) 4 6)
          \<lparr>m_solutions := [replicate 2 (replicate 12 7),
             replicate 2 [1, 0, 0, 1, 1, 0, 0, 1, 1, 0, 0, 1]]\<rparr>)"
proof -
  have dirs: "directions (example_settings False False True True) = [''d0'']"
    by (simp add: example_settings_def)
  have sw: "propagate_solutions (example_settings False False True True)"
    "propagate_converged_only (example_settings False False True True)"
    by (simp_all add: example_settings_def)
  have mx: "max_iterations (example_solver 5 4) = 5" "NSolutionPolarizations (example_solver 5 4) = 4"
    by (simp_all add: example_solver_def)
  have neutral: "spec_neutral_solution 2 3 4 = replicate 2 [1, 0, 0, 1, 1, 0, 0, 1, 1, 0, 0, 1]"
    by (simp add: spec_neutral_solution_def numeral_3_eq_3)
  show ?thesis
    using
      InitializeCurrentSolutions_initial_solution
        [of "example_solved_state (example_settings False False True True) 4 3" "example_solver 5 4"]
      InitializeCurrentSolutions_initial_solution
        [of "example_solved_state (example_settings False False True True) 4 6" "example_solver 5 4"]
    by (simp add: example_solved_state_ok dirs sw mx neutral)
qed

subsection \<open>The iteration engine: the first iteration at which the policy stops\<close>






subsection \<open>C6: the iteration count of a solve that does not converge\<close>




subsection \<open>C10: the four vectors of the driver grow together\<close>

text \<open>
  When the four vectors have the same length and the initialisation succeeds, no
  \<^verbatim>\<open>assert\<close> of \<^verbatim>\<open>SolveCurrentInterval\<close> fails; and a run over several intervals adds
  one entry per interval to each vector.
\<close>

lemma SolveCurrentInterval_completes:
  assumes solver: "m_solver st = Some solver"
    and bi: "buffer_interval = length (m_solutions st)"
    and small: "length (m_solutions st) < SZ"
    and a: "length (m_iterations st) = length (m_solutions st)"
    and b: "length (m_approx_iterations st) = length (m_solutions st)"
    and c: "length (m_constraint_solutions st) = length (m_solutions st)"
    and init: "InitializeCurrentSolutions (emplace_solutions st solver) = Inr st1"
  shows "\<exists>st'. SolveCurrentInterval Solve buffer_interval st = Inr st'"
proof -
  from InitializeCurrentSolutions_Inr[OF init] obtain new where
    st1: "st1 = st\<lparr>m_solutions := m_solutions st @ [new]\<rparr>"
    by (auto simp add: emplace_solutions_def)
  obtain final result where S: "Solve new = (final, result)"
    by (cases "Solve new")
  have wrap: "length (m_solutions st) mod SZ = length (m_solutions st)"
    using small by simp
  have "SolveCurrentInterval Solve buffer_interval st =
     Inr (st\<lparr>m_solutions := m_solutions st @ [final],
       m_iterations := m_iterations st @ [iterations result],
       m_approx_iterations := m_approx_iterations st @ [constraint_iterations result],
       m_constraint_solutions := m_constraint_solutions st @
         [if list_ex (\<lambda>cr. cr \<noteq> []) (results result)
          then results (flag_unconverged_weights (m_settings st) (GetMaxIterations solver) result)
          else []]\<rparr>)"
    by (simp add: SolveCurrentInterval_def bi solver init S Let_def st1 wrap a b c
        flag_unconverged_weights_shape if_update_constraint_solutions
        if_distrib[where f = length] cong: if_cong)
  then show ?thesis by blast
qed

lemma SolveIntervals_lengths:
  assumes "SolveIntervals ivs st = Inr st'"
  shows "length (m_solutions st') = length (m_solutions st) + length ivs \<and>
         length (m_iterations st') = length (m_iterations st) + length ivs \<and>
         length (m_approx_iterations st') = length (m_approx_iterations st) + length ivs \<and>
         length (m_constraint_solutions st') = length (m_constraint_solutions st) + length ivs"
  using assms
proof (induction ivs arbitrary: st)
  case Nil
  then show ?case by simp
next
  case (Cons iv ivs)
  obtain Solve bi where iv: "iv = (Solve, bi)" by (cases iv)
  from Cons.prems obtain st1 where
    one: "SolveCurrentInterval Solve bi st = Inr st1" and rest: "SolveIntervals ivs st1 = Inr st'"
    by (auto simp add: iv split: sum.splits)
  from SolveCurrentInterval_Inr[OF one] have
    "length (m_solutions st1) = length (m_solutions st) + 1"
    "length (m_iterations st1) = length (m_iterations st) + 1"
    "length (m_approx_iterations st1) = length (m_approx_iterations st) + 1"
    "length (m_constraint_solutions st1) = length (m_constraint_solutions st) + 1"
    by auto
  with Cons.IH[OF rest] show ?case by simp
qed

text \<open>
  Claim C10. After every completed call of \<^verbatim>\<open>SolveCurrentInterval\<close> (on fewer than
  \<open>2 ^ 64\<close> solved intervals), each of \<^verbatim>\<open>solutions_\<close>, \<^verbatim>\<open>iterations_\<close>,
  \<^verbatim>\<open>approx_iterations_\<close> and \<^verbatim>\<open>constraint_solutions_\<close> has exactly one entry more than
  before, and the four have the same length. The new entries are the final solution, the
  iteration count and the count of constraint iterations that the solver returned; the
  new constraint-solution entry is empty when every constraint returned an empty result,
  and is the result of the solver after the treatment of the weights otherwise.
\<close>

theorem SolveCurrentInterval_bookkeeping:
  assumes "SolveCurrentInterval Solve buffer_interval st = Inr st'"
    and "length (m_solutions st) < SZ"
  shows
    "length (m_solutions st') = length (m_solutions st) + 1 \<and>
     length (m_iterations st') = length (m_iterations st) + 1 \<and>
     length (m_approx_iterations st') = length (m_approx_iterations st) + 1 \<and>
     length (m_constraint_solutions st') = length (m_constraint_solutions st) + 1 \<and>
     length (m_iterations st') = length (m_solutions st') \<and>
     length (m_approx_iterations st') = length (m_solutions st') \<and>
     length (m_constraint_solutions st') = length (m_solutions st') \<and>
     (\<exists>solver st1.
        m_solver st = Some solver \<and>
        InitializeCurrentSolutions (emplace_solutions st solver) = Inr st1 \<and>
        last (m_solutions st') = fst (Solve (last (m_solutions st1))) \<and>
        last (m_iterations st') = iterations (snd (Solve (last (m_solutions st1)))) \<and>
        last (m_approx_iterations st') =
          constraint_iterations (snd (Solve (last (m_solutions st1)))) \<and>
        ((\<forall>cr \<in> set (results (snd (Solve (last (m_solutions st1))))). cr = []) \<longrightarrow>
           last (m_constraint_solutions st') = []) \<and>
        ((\<exists>cr \<in> set (results (snd (Solve (last (m_solutions st1))))). cr \<noteq> []) \<longrightarrow>
           last (m_constraint_solutions st') =
             results (flag_unconverged_weights (m_settings st) (GetMaxIterations solver)
               (snd (Solve (last (m_solutions st1)))))))"
proof -
  from SolveCurrentInterval_Inr[OF assms(1)] obtain solver st1 where
    solver: "m_solver st = Some solver"
    and init: "InitializeCurrentSolutions (emplace_solutions st solver) = Inr st1"
    and a: "length (m_iterations st) = length (m_solutions st) mod SZ"
    and b: "length (m_approx_iterations st) = length (m_solutions st) mod SZ"
    and c: "length (m_constraint_solutions st) = length (m_solutions st)"
    and st': "st' = st\<lparr>m_solutions := m_solutions st @ [fst (Solve (last (m_solutions st1)))],
                     m_iterations := m_iterations st @
                       [iterations (snd (Solve (last (m_solutions st1))))],
                     m_approx_iterations := m_approx_iterations st @
                       [constraint_iterations (snd (Solve (last (m_solutions st1))))],
                     m_constraint_solutions := m_constraint_solutions st @
                       [if list_ex (\<lambda>cr. cr \<noteq> []) (results (snd (Solve (last (m_solutions st1)))))
                        then results (flag_unconverged_weights (m_settings st)
                               (GetMaxIterations solver) (snd (Solve (last (m_solutions st1)))))
                        else []]\<rparr>"
    by blast
  have a': "length (m_iterations st) = length (m_solutions st)"
    and b': "length (m_approx_iterations st) = length (m_solutions st)"
    using a b assms(2) by simp_all
  have lens: "length (m_solutions st') = length (m_solutions st) + 1"
    "length (m_iterations st') = length (m_iterations st) + 1"
    "length (m_approx_iterations st') = length (m_approx_iterations st) + 1"
    "length (m_constraint_solutions st') = length (m_constraint_solutions st) + 1"
    by (simp_all add: st')
  have lasts: "last (m_solutions st') = fst (Solve (last (m_solutions st1)))"
    "last (m_iterations st') = iterations (snd (Solve (last (m_solutions st1))))"
    "last (m_approx_iterations st') =
       constraint_iterations (snd (Solve (last (m_solutions st1))))"
    by (simp_all add: st')
  have e1: "(\<forall>cr \<in> set (results (snd (Solve (last (m_solutions st1))))). cr = []) \<longrightarrow>
           last (m_constraint_solutions st') = []"
    by (simp add: st' list_ex_iff)
  have e2: "(\<exists>cr \<in> set (results (snd (Solve (last (m_solutions st1))))). cr \<noteq> []) \<longrightarrow>
           last (m_constraint_solutions st') =
             results (flag_unconverged_weights (m_settings st) (GetMaxIterations solver)
               (snd (Solve (last (m_solutions st1)))))"
    by (simp add: st' list_ex_iff)
  have ex: "\<exists>solver st1.
        m_solver st = Some solver \<and>
        InitializeCurrentSolutions (emplace_solutions st solver) = Inr st1 \<and>
        last (m_solutions st') = fst (Solve (last (m_solutions st1))) \<and>
        last (m_iterations st') = iterations (snd (Solve (last (m_solutions st1)))) \<and>
        last (m_approx_iterations st') =
          constraint_iterations (snd (Solve (last (m_solutions st1)))) \<and>
        ((\<forall>cr \<in> set (results (snd (Solve (last (m_solutions st1))))). cr = []) \<longrightarrow>
           last (m_constraint_solutions st') = []) \<and>
        ((\<exists>cr \<in> set (results (snd (Solve (last (m_solutions st1))))). cr \<noteq> []) \<longrightarrow>
           last (m_constraint_solutions st') =
             results (flag_unconverged_weights (m_settings st) (GetMaxIterations solver)
               (snd (Solve (last (m_solutions st1))))))"
    by (rule exI[of _ solver], rule exI[of _ st1], intro conjI)
      (fact solver init lasts e1 e2)+
  show ?thesis
    using lens a' b' c ex by simp
qed

theorem SolveCurrentInterval_bookkeeping_witness:
  "\<exists>st'. SolveCurrentInterval
            (\<lambda>initial. (initial, \<lparr>iterations = 2, constraint_iterations = 0, results = [[], []]\<rparr>))
            1 (example_solved_state (example_settings False False False False) 2 3) = Inr st' \<and>
         length (m_solutions st') = 2 \<and> length (m_iterations st') = 2 \<and>
         length (m_approx_iterations st') = 2 \<and> length (m_constraint_solutions st') = 2 \<and>
         last (m_iterations st') = 2 \<and> last (m_constraint_solutions st') = []"
proof -
  define st where "st = example_solved_state (example_settings False False False False) 2 3"
  define Solve :: "complex list list \<Rightarrow> complex list list \<times> unit SolveResult"
    where "Solve = (\<lambda>initial. (initial, \<lparr>iterations = 2, constraint_iterations = 0, results = [[], []]\<rparr>))"
  have dirs: "directions (example_settings False False False False) = [''d0'']"
    by (simp add: example_settings_def)
  have fields: "m_solver st = Some (example_solver 5 2)" "length (m_solutions st) = 1"
    "length (m_iterations st) = 1" "length (m_approx_iterations st) = 1"
    "length (m_constraint_solutions st) = 1"
    by (simp_all add: st_def example_solved_state_def example_state_def)
  have small: "length (m_solutions st) < SZ" by (simp add: fields SZ_def)
  obtain st1 where init:
    "InitializeCurrentSolutions (emplace_solutions st (example_solver 5 2)) = Inr st1"
    using InitializeCurrentSolutions_emplace[of st "example_solver 5 2"]
    by (simp add: st_def example_solved_state_ok dirs)
  obtain st' where run: "SolveCurrentInterval Solve 1 st = Inr st'"
    using SolveCurrentInterval_completes[of st "example_solver 5 2" 1 st1 Solve] init
    by (auto simp add: fields SZ_def)
  show ?thesis
    using SolveCurrentInterval_bookkeeping[OF run small] run
    unfolding st_def[symmetric] Solve_def[symmetric]
    by (auto simp add: fields Solve_def)
qed

subsection \<open>C8: the constructor fails fast\<close>

text \<open>
  Claim C8. The constructor fails before any data is processed. With an empty list of
  directions it throws an invalid-argument error. With directions and solving enabled
  (not only-predict) it throws a runtime error whenever a constraint solver of the created
  solver carries a constraint. When it succeeds, no buffer, solution or call to a
  collaborator exists yet; in only-predict mode there is no solver, and otherwise the
  solver is the created one and none of its constraint solvers carries a constraint.
\<close>

theorem BdaDdeCal_ctor_fails_fast:
  fixes CreateBdaSolver :: "Settings \<Rightarrow> 'c BdaSolver"
  shows
    "(directions settings = [] \<longrightarrow>
        (\<exists>msg. (BdaDdeCal_ctor settings CreateBdaSolver :: error + ('c, 'r) BdaDdeCal) =
           Inl (InvalidArgument msg))) \<and>
     (directions settings \<noteq> [] \<and> \<not> only_predict settings \<and>
      (\<exists>constraint_solver \<in> set (ConstraintSolvers (CreateBdaSolver settings)).
         GetConstraints constraint_solver \<noteq> []) \<longrightarrow>
        (\<exists>msg. (BdaDdeCal_ctor settings CreateBdaSolver :: error + ('c, 'r) BdaDdeCal) =
           Inl (RuntimeError msg))) \<and>
     (\<forall>st :: ('c, 'r) BdaDdeCal.
        BdaDdeCal_ctor settings CreateBdaSolver = Inr st \<longrightarrow>
          directions settings \<noteq> [] \<and> m_settings st = settings \<and>
          m_data_buffers st = [] \<and> m_model_buffers st = [] \<and> m_events st = [] \<and>
          m_solutions st = [] \<and> m_iterations st = [] \<and> m_approx_iterations st = [] \<and>
          m_constraint_solutions st = [] \<and>
          (only_predict settings \<longrightarrow> m_solver st = None) \<and>
          (\<not> only_predict settings \<longrightarrow>
             m_solver st = Some (CreateBdaSolver settings) \<and>
             (\<forall>constraint_solver \<in> set (ConstraintSolvers (CreateBdaSolver settings)).
                GetConstraints constraint_solver = [])))"
  by (auto simp add: BdaDdeCal_ctor_def Let_def list_ex_iff split: if_splits)

theorem BdaDdeCal_ctor_fails_fast_witness:
  "(\<exists>msg. (BdaDdeCal_ctor ((example_settings False False False False)\<lparr>directions := []\<rparr>)
             (\<lambda>settings. example_solver 5 2) :: error + (unit, unit) BdaDdeCal) =
           Inl (InvalidArgument msg)) \<and>
   (\<exists>msg. (BdaDdeCal_ctor (example_settings False False False False)
             (\<lambda>settings. example_constrained_solver) :: error + (unit, unit) BdaDdeCal) =
           Inl (RuntimeError msg)) \<and>
   (BdaDdeCal_ctor (example_settings False False False False)
      (\<lambda>settings. example_solver 5 2) :: error + (unit, unit) BdaDdeCal) =
     Inr (example_state (example_settings False False False False)
            \<lparr>nchan = 0, chanFreqs0 = [], chanWidths0 = [], n_antennaUsed = 0\<rparr>
            (example_solver 5 2))"
proof (intro conjI)
  show "\<exists>msg. (BdaDdeCal_ctor ((example_settings False False False False)\<lparr>directions := []\<rparr>)
             (\<lambda>settings. example_solver 5 2) :: error + (unit, unit) BdaDdeCal) =
           Inl (InvalidArgument msg)"
    by (rule BdaDdeCal_ctor_fails_fast[THEN conjunct1, rule_format]) simp
  show "\<exists>msg. (BdaDdeCal_ctor (example_settings False False False False)
             (\<lambda>settings. example_constrained_solver) :: error + (unit, unit) BdaDdeCal) =
           Inl (RuntimeError msg)"
    by (rule BdaDdeCal_ctor_fails_fast[THEN conjunct2, THEN conjunct1, rule_format])
      (simp add: example_settings_def example_constrained_solver_def GetConstraints_def)
  show "(BdaDdeCal_ctor (example_settings False False False False)
      (\<lambda>settings. example_solver 5 2) :: error + (unit, unit) BdaDdeCal) =
     Inr (example_state (example_settings False False False False)
            \<lparr>nchan = 0, chanFreqs0 = [], chanWidths0 = [], n_antennaUsed = 0\<rparr>
            (example_solver 5 2))"
  proof -
    have d: "directions (example_settings False False False False) \<noteq> []"
      "\<not> only_predict (example_settings False False False False)"
      by (simp_all add: example_settings_def)
    have c: "\<not> list_ex (\<lambda>constraint_solver. GetConstraints constraint_solver \<noteq> [])
        (ConstraintSolvers (example_solver 5 2 :: unit BdaSolver))"
      by (simp add: example_solver_def GetConstraints_def)
    show ?thesis
      by (simp add: BdaDdeCal_ctor_def Let_def d c example_state_def)
  qed
qed

subsection \<open>The queue of model buffers: the complete entries at the front\<close>





subsection \<open>C9: only-predict mode forwards the sum of the directions\<close>



end
